theory Spec2Isabelle
  imports Main "HOL-Library.Sublist"
begin

section \<open>Batched dispatchers of \<open>cupy_lapack.h\<close>\<close>

subsection \<open>Typed device pointers\<close>

text \<open>
  The dispatchers receive buffer addresses as \<open>intptr_t\<close> and turn them into typed
  pointers with \<open>reinterpret_cast<T*>\<close>. Pointer arithmetic on a \<open>T*\<close> counts
  elements of \<open>T\<close>, so a pointer value is kept as the integer address it was cast from
  together with the number of elements it has been advanced by since; its byte address
  is \<open>base + elems * sizeof(pointee)\<close>.

  The template parameter \<open>T\<close> ranges over \<open>float\<close>, \<open>double\<close>, the single
  precision complex type (\<open>cuComplex\<close>, \<open>hipFloatComplex\<close>) and the double
  precision complex type (\<open>cuDoubleComplex\<close>, \<open>hipDoubleComplex\<close>); \<open>CInt\<close> is
  the pointee of \<open>int* devInfo\<close>.

  The \<open>int\<close> parameters are modelled by HOL integers. The products \<open>m * n\<close>,
  \<open>m * m\<close>, \<open>m * k\<close>, \<open>n * n\<close>, \<open>n * k\<close> and \<open>m * origin_n\<close> are expressions
  of type \<open>int\<close> in the source, so they are evaluated in 32-bit two's complement
  arithmetic: \<open>as_int x\<close> is the \<open>int\<close> that results where the mathematical value is
  \<open>x\<close>. It is \<open>x\<close> itself when \<open>x\<close> is representable (\<open>in_int_range\<close>); otherwise
  C++ leaves the result undefined, and the model takes the value the multiplication wraps
  around to, which is what the pointer is then advanced by.
\<close>

definition in_int_range :: "int \<Rightarrow> bool" where
  "in_int_range x \<longleftrightarrow> - 2147483648 \<le> x \<and> x \<le> 2147483647"

definition as_int :: "int \<Rightarrow> int" where
  "as_int x = (x + 2147483648) mod 4294967296 - 2147483648"

datatype ctype = CFloat | CDouble | CComplex | CDoubleComplex | CInt

record ptr =
  pointee :: ctype
  base :: int
  elems :: int

definition reinterpret_cast :: "ctype \<Rightarrow> int \<Rightarrow> ptr" where
  "reinterpret_cast T a = \<lparr>pointee = T, base = a, elems = 0\<rparr>"

definition ptr_add :: "ptr \<Rightarrow> int \<Rightarrow> ptr" where
  "ptr_add p d = p\<lparr>elems := elems p + d\<rparr>"

subsection \<open>The loop shared by the dispatchers\<close>

text \<open>
  A vendor entry point is opaque: it is a parameter \<open>func\<close> that maps the state of the
  outside world (device memory, the library's handle) and the arguments of one call to the
  returned status and the new state of the world.

  What a dispatcher does is observed as a \<open>run\<close>: the value of the local variable
  \<open>status\<close> (declared without an initialiser, so \<open>None\<close> until the first
  assignment), the vendor calls made so far in order, and the state of the world.
\<close>

record ('c, 'w) run =
  status :: "int option"
  calls :: "'c list"
  world :: 'w

text \<open>
  Every loop of the header has the shape
  \<^verbatim>\<open>
  for (int i=0; i<batch_size; i++) {
      status = func(<arguments built from the current pointers>);
      if (status != 0) break;
      <advance the pointers>
  }
  \<close>
  \<open>mk\<close> builds the arguments of the call from the loop's pointer variables \<open>p\<close>,
  \<open>adv\<close> is the block of pointer increments.
\<close>

function for_loop ::
  "('w \<Rightarrow> 'c \<Rightarrow> int \<times> 'w) \<Rightarrow> ('p \<Rightarrow> 'c) \<Rightarrow> ('p \<Rightarrow> 'p) \<Rightarrow> int \<Rightarrow> int \<Rightarrow> 'p
     \<Rightarrow> ('c, 'w) run \<Rightarrow> ('c, 'w) run" where
  "for_loop func mk adv i batch_size p r =
     (if i < batch_size then
        (case func (world r) (mk p) of
           (st, w') \<Rightarrow>
             if st \<noteq> 0 then \<lparr>status = Some st, calls = calls r @ [mk p], world = w'\<rparr>
             else for_loop func mk adv (i + 1) batch_size (adv p)
                    \<lparr>status = Some st, calls = calls r @ [mk p], world = w'\<rparr>)
      else r)"
  by pat_completeness auto
termination
  by (relation "measure (\<lambda>(func, mk, adv, i, batch_size, p, r). nat (batch_size - i))") auto

text \<open>
  The state of the world in which item \<open>j\<close> is dispatched when every earlier item has
  been dispatched, and the status the vendor function returns for item \<open>j\<close> there.
\<close>

primrec item_world ::
  "('w \<Rightarrow> 'c \<Rightarrow> int \<times> 'w) \<Rightarrow> ('p \<Rightarrow> 'c) \<Rightarrow> ('p \<Rightarrow> 'p) \<Rightarrow> 'p \<Rightarrow> 'w \<Rightarrow> nat \<Rightarrow> 'w" where
  "item_world func mk adv p w 0 = w"
| "item_world func mk adv p w (Suc j) =
     snd (func (item_world func mk adv p w j) (mk ((adv ^^ j) p)))"

definition item_status ::
  "('w \<Rightarrow> 'c \<Rightarrow> int \<times> 'w) \<Rightarrow> ('p \<Rightarrow> 'c) \<Rightarrow> ('p \<Rightarrow> 'p) \<Rightarrow> 'p \<Rightarrow> 'w \<Rightarrow> nat \<Rightarrow> int" where
  "item_status func mk adv p w j = fst (func (item_world func mk adv p w j) (mk ((adv ^^ j) p)))"

definition item_args :: "('p \<Rightarrow> 'c) \<Rightarrow> ('p \<Rightarrow> 'p) \<Rightarrow> 'p \<Rightarrow> nat \<Rightarrow> 'c" where
  "item_args mk adv p j = mk ((adv ^^ j) p)"

subsection \<open>Batched SVD, CUDA (\<open>gesvd_loop\<close>, lines 25-74)\<close>

text \<open>
  The arguments of one call of \<open>cusolverDn<t>gesvd\<close>, in the order of the type
  \<open>gesvd<T1, T2>\<close>: handle, jobu, jobvt, m, n, A, lda, S, U, ldu, VT, ldvt, work,
  lwork, rwork, info. \<open>rwork\<close> is \<open>None\<close> for \<open>NULL\<close>.
\<close>

record gesvd_args =
  svd_handle :: int
  svd_jobu :: char
  svd_jobvt :: char
  svd_m :: int
  svd_n :: int
  svd_A :: ptr
  svd_lda :: int
  svd_S :: ptr
  svd_U :: ptr
  svd_ldu :: int
  svd_VT :: ptr
  svd_ldvt :: int
  svd_Work :: ptr
  svd_lwork :: int
  svd_rwork :: "ptr option"
  svd_devInfo :: ptr

text \<open>\<open>real_type\<close>: \<open>float\<close> for \<open>float\<close> and \<open>cuComplex\<close>, \<open>double\<close> otherwise.\<close>

definition real_type :: "ctype \<Rightarrow> ctype" where
  "real_type T = (if T = CFloat \<or> T = CComplex then CFloat else CDouble)"

text \<open>The loop's pointer variables \<open>(A, S, U, VT, devInfo)\<close> as initialised.\<close>

definition gesvd_vars :: "ctype \<Rightarrow> int \<Rightarrow> int \<Rightarrow> int \<Rightarrow> int \<Rightarrow> int \<Rightarrow> ptr \<times> ptr \<times> ptr \<times> ptr \<times> ptr" where
  "gesvd_vars T a_ptr s_ptr u_ptr vt_ptr info_ptr =
     (reinterpret_cast T a_ptr, reinterpret_cast (real_type T) s_ptr,
      reinterpret_cast T u_ptr, reinterpret_cast T vt_ptr, reinterpret_cast CInt info_ptr)"

text \<open>The call \<open>func(handle, jobu, jobvt, m, n, A, m, S, U, m, VT, n, Work, buffersize, NULL, devInfo)\<close>.\<close>

definition gesvd_call ::
  "int \<Rightarrow> char \<Rightarrow> char \<Rightarrow> int \<Rightarrow> int \<Rightarrow> ptr \<Rightarrow> int \<Rightarrow> ptr \<times> ptr \<times> ptr \<times> ptr \<times> ptr \<Rightarrow> gesvd_args" where
  "gesvd_call handle jobu jobvt m n Work buffersize =
     (\<lambda>(A, S, U, VT, devInfo).
        \<lparr>svd_handle = handle, svd_jobu = jobu, svd_jobvt = jobvt, svd_m = m, svd_n = n,
         svd_A = A, svd_lda = m, svd_S = S, svd_U = U, svd_ldu = m, svd_VT = VT, svd_ldvt = n,
         svd_Work = Work, svd_lwork = buffersize, svd_rwork = None, svd_devInfo = devInfo\<rparr>)"

text \<open>The increments of lines 67-71.\<close>

definition gesvd_advance ::
  "char \<Rightarrow> char \<Rightarrow> int \<Rightarrow> int \<Rightarrow> int \<Rightarrow> ptr \<times> ptr \<times> ptr \<times> ptr \<times> ptr \<Rightarrow> ptr \<times> ptr \<times> ptr \<times> ptr \<times> ptr" where
  "gesvd_advance jobu jobvt m n k =
     (\<lambda>(A, S, U, VT, devInfo).
        (ptr_add A (as_int (m * n)),
         ptr_add S k,
         ptr_add U (if jobu = CHR ''A'' then as_int (m * m)
                    else (if jobu = CHR ''S'' then as_int (m * k) else 0)),
         ptr_add VT (if jobvt = CHR ''A'' then as_int (n * n)
                     else (if jobvt = CHR ''S'' then as_int (n * k) else 0)),
         ptr_add devInfo 1))"

definition gesvd_loop ::
  "('w \<Rightarrow> gesvd_args \<Rightarrow> int \<times> 'w) \<Rightarrow> ctype \<Rightarrow> int \<Rightarrow> char \<Rightarrow> char \<Rightarrow> int \<Rightarrow> int \<Rightarrow> int \<Rightarrow> int \<Rightarrow> int \<Rightarrow> int
     \<Rightarrow> int \<Rightarrow> int \<Rightarrow> int \<Rightarrow> int \<Rightarrow> 'w \<Rightarrow> (gesvd_args, 'w) run" where
  "gesvd_loop func T handle jobu jobvt m n a_ptr s_ptr u_ptr vt_ptr w_ptr buffersize info_ptr
       batch_size w =
     (let k = (if m < n then m else n);
          Work = reinterpret_cast T w_ptr
      in for_loop func (gesvd_call handle jobu jobvt m n Work buffersize)
           (gesvd_advance jobu jobvt m n k) 0 batch_size
           (gesvd_vars T a_ptr s_ptr u_ptr vt_ptr info_ptr)
           \<lparr>status = None, calls = [], world = w\<rparr>)"

text \<open>The status the vendor function returns for item \<open>j\<close> of a \<open>gesvd_loop\<close> batch.\<close>

definition gesvd_item_status ::
  "('w \<Rightarrow> gesvd_args \<Rightarrow> int \<times> 'w) \<Rightarrow> ctype \<Rightarrow> int \<Rightarrow> char \<Rightarrow> char \<Rightarrow> int \<Rightarrow> int \<Rightarrow> int \<Rightarrow> int \<Rightarrow> int \<Rightarrow> int
     \<Rightarrow> int \<Rightarrow> int \<Rightarrow> int \<Rightarrow> 'w \<Rightarrow> nat \<Rightarrow> int" where
  "gesvd_item_status func T handle jobu jobvt m n a_ptr s_ptr u_ptr vt_ptr w_ptr buffersize
       info_ptr w j =
     (let k = (if m < n then m else n);
          Work = reinterpret_cast T w_ptr
      in item_status func (gesvd_call handle jobu jobvt m n Work buffersize)
           (gesvd_advance jobu jobvt m n k)
           (gesvd_vars T a_ptr s_ptr u_ptr vt_ptr info_ptr) w j)"

definition gesvd_item_args ::
  "ctype \<Rightarrow> int \<Rightarrow> char \<Rightarrow> char \<Rightarrow> int \<Rightarrow> int \<Rightarrow> int \<Rightarrow> int \<Rightarrow> int \<Rightarrow> int
     \<Rightarrow> int \<Rightarrow> int \<Rightarrow> int \<Rightarrow> nat \<Rightarrow> gesvd_args" where
  "gesvd_item_args T handle jobu jobvt m n a_ptr s_ptr u_ptr vt_ptr w_ptr buffersize
       info_ptr j =
     (let k = (if m < n then m else n);
          Work = reinterpret_cast T w_ptr
      in item_args (gesvd_call handle jobu jobvt m n Work buffersize)
           (gesvd_advance jobu jobvt m n k)
           (gesvd_vars T a_ptr s_ptr u_ptr vt_ptr info_ptr) j)"

subsection \<open>Batched SVD, HIP (\<open>gesvd_loop\<close>, lines 172-180)\<close>

text \<open>The body is \<open>return 0;\<close>: no vendor function is named, nothing is called.\<close>

definition gesvd_loop_hip ::
  "ctype \<Rightarrow> int \<Rightarrow> char \<Rightarrow> char \<Rightarrow> int \<Rightarrow> int \<Rightarrow> int \<Rightarrow> int \<Rightarrow> int \<Rightarrow> int \<Rightarrow> int \<Rightarrow> int \<Rightarrow> int \<Rightarrow> int \<Rightarrow> 'w
     \<Rightarrow> (gesvd_args, 'w) run" where
  "gesvd_loop_hip T handle jobu jobvt m n a_ptr s_ptr u_ptr vt_ptr w_ptr buffersize info_ptr
       batch_size w =
     \<lparr>status = Some 0, calls = [], world = w\<rparr>"

subsection \<open>Batched QR factorisation (\<open>geqrf_loop\<close>)\<close>

text \<open>
  The arguments of one call of \<open>cusolverDn<t>geqrf\<close> or \<open>hipsolver<t>geqrf\<close>, in
  the order of the type \<open>geqrf<T>\<close>, which is the same on both backends: handle, m, n, A,
  lda, tau, work, lwork, info.
\<close>

record geqrf_args =
  qrf_handle :: int
  qrf_m :: int
  qrf_n :: int
  qrf_A :: ptr
  qrf_lda :: int
  qrf_Tau :: ptr
  qrf_Work :: ptr
  qrf_lwork :: int
  qrf_devInfo :: ptr

paragraph \<open>CUDA (lines 80-121)\<close>

definition geqrf_vars :: "ctype \<Rightarrow> int \<Rightarrow> int \<Rightarrow> int \<Rightarrow> ptr \<times> ptr \<times> ptr" where
  "geqrf_vars T a_ptr tau_ptr info_ptr =
     (reinterpret_cast T a_ptr, reinterpret_cast T tau_ptr, reinterpret_cast CInt info_ptr)"

text \<open>The call \<open>func(handle, m, n, A, lda, Tau, Work, buffersize, devInfo)\<close>.\<close>

definition geqrf_call ::
  "int \<Rightarrow> int \<Rightarrow> int \<Rightarrow> int \<Rightarrow> ptr \<Rightarrow> int \<Rightarrow> ptr \<times> ptr \<times> ptr \<Rightarrow> geqrf_args" where
  "geqrf_call handle m n lda Work buffersize =
     (\<lambda>(A, Tau, devInfo).
        \<lparr>qrf_handle = handle, qrf_m = m, qrf_n = n, qrf_A = A, qrf_lda = lda, qrf_Tau = Tau,
         qrf_Work = Work, qrf_lwork = buffersize, qrf_devInfo = devInfo\<rparr>)"

text \<open>The increments of lines 116-118.\<close>

definition geqrf_advance :: "int \<Rightarrow> int \<Rightarrow> int \<Rightarrow> ptr \<times> ptr \<times> ptr \<Rightarrow> ptr \<times> ptr \<times> ptr" where
  "geqrf_advance m n k =
     (\<lambda>(A, Tau, devInfo). (ptr_add A (as_int (m * n)), ptr_add Tau k, ptr_add devInfo 1))"

definition geqrf_loop ::
  "('w \<Rightarrow> geqrf_args \<Rightarrow> int \<times> 'w) \<Rightarrow> ctype \<Rightarrow> int \<Rightarrow> int \<Rightarrow> int \<Rightarrow> int \<Rightarrow> int \<Rightarrow> int \<Rightarrow> int \<Rightarrow> int \<Rightarrow> int
     \<Rightarrow> int \<Rightarrow> 'w \<Rightarrow> (geqrf_args, 'w) run" where
  "geqrf_loop func T handle m n a_ptr lda tau_ptr w_ptr buffersize info_ptr batch_size w =
     (let k = (if m < n then m else n);
          Work = reinterpret_cast T w_ptr
      in for_loop func (geqrf_call handle m n lda Work buffersize) (geqrf_advance m n k)
           0 batch_size (geqrf_vars T a_ptr tau_ptr info_ptr)
           \<lparr>status = None, calls = [], world = w\<rparr>)"

definition geqrf_item_status ::
  "('w \<Rightarrow> geqrf_args \<Rightarrow> int \<times> 'w) \<Rightarrow> ctype \<Rightarrow> int \<Rightarrow> int \<Rightarrow> int \<Rightarrow> int \<Rightarrow> int \<Rightarrow> int \<Rightarrow> int \<Rightarrow> int \<Rightarrow> int
     \<Rightarrow> 'w \<Rightarrow> nat \<Rightarrow> int" where
  "geqrf_item_status func T handle m n a_ptr lda tau_ptr w_ptr buffersize info_ptr w j =
     (let k = (if m < n then m else n);
          Work = reinterpret_cast T w_ptr
      in item_status func (geqrf_call handle m n lda Work buffersize) (geqrf_advance m n k)
           (geqrf_vars T a_ptr tau_ptr info_ptr) w j)"

definition geqrf_item_args ::
  "ctype \<Rightarrow> int \<Rightarrow> int \<Rightarrow> int \<Rightarrow> int \<Rightarrow> int \<Rightarrow> int \<Rightarrow> int \<Rightarrow> int \<Rightarrow> int
     \<Rightarrow> nat \<Rightarrow> geqrf_args" where
  "geqrf_item_args T handle m n a_ptr lda tau_ptr w_ptr buffersize info_ptr j =
     (let k = (if m < n then m else n);
          Work = reinterpret_cast T w_ptr
      in item_args (geqrf_call handle m n lda Work buffersize) (geqrf_advance m n k)
           (geqrf_vars T a_ptr tau_ptr info_ptr) j)"

paragraph \<open>HIP (lines 186-236)\<close>

text \<open>
  \<open>data_type\<close>: \<open>T\<close> itself when it is a floating point type, otherwise
  \<open>hipFloatComplex\<close> when \<open>T\<close> is that type, and \<open>hipDoubleComplex\<close> for the rest.
\<close>

definition is_floating_point :: "ctype \<Rightarrow> bool" where
  "is_floating_point T = (T = CFloat \<or> T = CDouble)"

definition data_type :: "ctype \<Rightarrow> ctype" where
  "data_type T =
     (if is_floating_point T then T else (if T = CComplex then CComplex else CDoubleComplex))"

definition geqrf_vars_hip :: "ctype \<Rightarrow> int \<Rightarrow> int \<Rightarrow> int \<Rightarrow> ptr \<times> ptr \<times> ptr" where
  "geqrf_vars_hip T a_ptr tau_ptr info_ptr =
     (reinterpret_cast (data_type T) a_ptr, reinterpret_cast (data_type T) tau_ptr,
      reinterpret_cast CInt info_ptr)"

text \<open>The call \<open>func(handle, m, n, A, lda, Tau, Work, buffersize, devInfo)\<close> of lines 227-228.\<close>

definition geqrf_call_hip ::
  "int \<Rightarrow> int \<Rightarrow> int \<Rightarrow> int \<Rightarrow> ptr \<Rightarrow> int \<Rightarrow> ptr \<times> ptr \<times> ptr \<Rightarrow> geqrf_args" where
  "geqrf_call_hip handle m n lda Work buffersize =
     (\<lambda>(A, Tau, devInfo).
        \<lparr>qrf_handle = handle, qrf_m = m, qrf_n = n, qrf_A = A, qrf_lda = lda, qrf_Tau = Tau,
         qrf_Work = Work, qrf_lwork = buffersize, qrf_devInfo = devInfo\<rparr>)"

text \<open>The increments of lines 230-232.\<close>

definition geqrf_advance_hip :: "int \<Rightarrow> int \<Rightarrow> int \<Rightarrow> ptr \<times> ptr \<times> ptr \<Rightarrow> ptr \<times> ptr \<times> ptr" where
  "geqrf_advance_hip m n k =
     (\<lambda>(A, Tau, devInfo). (ptr_add A (as_int (m * n)), ptr_add Tau k, ptr_add devInfo 1))"

definition geqrf_loop_hip ::
  "('w \<Rightarrow> geqrf_args \<Rightarrow> int \<times> 'w) \<Rightarrow> ctype \<Rightarrow> int \<Rightarrow> int \<Rightarrow> int \<Rightarrow> int \<Rightarrow> int \<Rightarrow> int \<Rightarrow> int \<Rightarrow> int \<Rightarrow> int
     \<Rightarrow> int \<Rightarrow> 'w \<Rightarrow> (geqrf_args, 'w) run" where
  "geqrf_loop_hip func T handle m n a_ptr lda tau_ptr w_ptr buffersize info_ptr batch_size w =
     (let k = (if m < n then m else n);
          Work = reinterpret_cast (data_type T) w_ptr
      in for_loop func (geqrf_call_hip handle m n lda Work buffersize) (geqrf_advance_hip m n k)
           0 batch_size (geqrf_vars_hip T a_ptr tau_ptr info_ptr)
           \<lparr>status = None, calls = [], world = w\<rparr>)"

definition geqrf_item_status_hip ::
  "('w \<Rightarrow> geqrf_args \<Rightarrow> int \<times> 'w) \<Rightarrow> ctype \<Rightarrow> int \<Rightarrow> int \<Rightarrow> int \<Rightarrow> int \<Rightarrow> int \<Rightarrow> int \<Rightarrow> int \<Rightarrow> int \<Rightarrow> int
     \<Rightarrow> 'w \<Rightarrow> nat \<Rightarrow> int" where
  "geqrf_item_status_hip func T handle m n a_ptr lda tau_ptr w_ptr buffersize info_ptr w j =
     (let k = (if m < n then m else n);
          Work = reinterpret_cast (data_type T) w_ptr
      in item_status func (geqrf_call_hip handle m n lda Work buffersize)
           (geqrf_advance_hip m n k) (geqrf_vars_hip T a_ptr tau_ptr info_ptr) w j)"

definition geqrf_item_args_hip ::
  "ctype \<Rightarrow> int \<Rightarrow> int \<Rightarrow> int \<Rightarrow> int \<Rightarrow> int \<Rightarrow> int \<Rightarrow> int \<Rightarrow> int \<Rightarrow> int
     \<Rightarrow> nat \<Rightarrow> geqrf_args" where
  "geqrf_item_args_hip T handle m n a_ptr lda tau_ptr w_ptr buffersize info_ptr j =
     (let k = (if m < n then m else n);
          Work = reinterpret_cast (data_type T) w_ptr
      in item_args (geqrf_call_hip handle m n lda Work buffersize)
           (geqrf_advance_hip m n k) (geqrf_vars_hip T a_ptr tau_ptr info_ptr) j)"

subsection \<open>Batched reconstruction of Q (\<open>orgqr_loop\<close>)\<close>

text \<open>
  The arguments of one call of \<open>cusolverDn<t>orgqr\<close> / \<open>ungqr\<close> or of the
  \<open>hipsolverDn\<close> function of the same name, in the order of the type \<open>orgqr<T>\<close>,
  which is the same on both backends: handle, m, n, k, A, lda, tau, work, lwork, info.
\<close>

record orgqr_args =
  gqr_handle :: int
  gqr_m :: int
  gqr_n :: int
  gqr_k :: int
  gqr_A :: ptr
  gqr_lda :: int
  gqr_Tau :: ptr
  gqr_Work :: ptr
  gqr_lwork :: int
  gqr_devInfo :: ptr

paragraph \<open>CUDA (lines 126-167)\<close>

definition orgqr_vars :: "ctype \<Rightarrow> int \<Rightarrow> int \<Rightarrow> int \<Rightarrow> ptr \<times> ptr \<times> ptr" where
  "orgqr_vars T a_ptr tau_ptr info_ptr =
     (reinterpret_cast T a_ptr, reinterpret_cast T tau_ptr, reinterpret_cast CInt info_ptr)"

text \<open>The call \<open>func(handle, m, n, k, A, lda, Tau, Work, buffersize, devInfo)\<close> of lines 158-159.\<close>

definition orgqr_call ::
  "int \<Rightarrow> int \<Rightarrow> int \<Rightarrow> int \<Rightarrow> int \<Rightarrow> ptr \<Rightarrow> int \<Rightarrow> ptr \<times> ptr \<times> ptr \<Rightarrow> orgqr_args" where
  "orgqr_call handle m n k lda Work buffersize =
     (\<lambda>(A, Tau, devInfo).
        \<lparr>gqr_handle = handle, gqr_m = m, gqr_n = n, gqr_k = k, gqr_A = A, gqr_lda = lda,
         gqr_Tau = Tau, gqr_Work = Work, gqr_lwork = buffersize, gqr_devInfo = devInfo\<rparr>)"

text \<open>The increments of lines 161-163.\<close>

definition orgqr_advance :: "int \<Rightarrow> int \<Rightarrow> int \<Rightarrow> ptr \<times> ptr \<times> ptr \<Rightarrow> ptr \<times> ptr \<times> ptr" where
  "orgqr_advance m k origin_n =
     (\<lambda>(A, Tau, devInfo).
        (ptr_add A (as_int (m * origin_n)), ptr_add Tau k, ptr_add devInfo 1))"

definition orgqr_loop ::
  "('w \<Rightarrow> orgqr_args \<Rightarrow> int \<times> 'w) \<Rightarrow> ctype \<Rightarrow> int \<Rightarrow> int \<Rightarrow> int \<Rightarrow> int \<Rightarrow> int \<Rightarrow> int \<Rightarrow> int \<Rightarrow> int \<Rightarrow> int
     \<Rightarrow> int \<Rightarrow> int \<Rightarrow> int \<Rightarrow> 'w \<Rightarrow> (orgqr_args, 'w) run" where
  "orgqr_loop func T handle m n k a_ptr lda tau_ptr w_ptr buffersize info_ptr batch_size
       origin_n w =
     (let Work = reinterpret_cast T w_ptr
      in for_loop func (orgqr_call handle m n k lda Work buffersize)
           (orgqr_advance m k origin_n) 0 batch_size (orgqr_vars T a_ptr tau_ptr info_ptr)
           \<lparr>status = None, calls = [], world = w\<rparr>)"

definition orgqr_item_status ::
  "('w \<Rightarrow> orgqr_args \<Rightarrow> int \<times> 'w) \<Rightarrow> ctype \<Rightarrow> int \<Rightarrow> int \<Rightarrow> int \<Rightarrow> int \<Rightarrow> int \<Rightarrow> int \<Rightarrow> int \<Rightarrow> int \<Rightarrow> int
     \<Rightarrow> int \<Rightarrow> int \<Rightarrow> 'w \<Rightarrow> nat \<Rightarrow> int" where
  "orgqr_item_status func T handle m n k a_ptr lda tau_ptr w_ptr buffersize info_ptr
       origin_n w j =
     (let Work = reinterpret_cast T w_ptr
      in item_status func (orgqr_call handle m n k lda Work buffersize)
           (orgqr_advance m k origin_n) (orgqr_vars T a_ptr tau_ptr info_ptr) w j)"

definition orgqr_item_args ::
  "ctype \<Rightarrow> int \<Rightarrow> int \<Rightarrow> int \<Rightarrow> int \<Rightarrow> int \<Rightarrow> int \<Rightarrow> int \<Rightarrow> int \<Rightarrow> int
     \<Rightarrow> int \<Rightarrow> int \<Rightarrow> nat \<Rightarrow> orgqr_args" where
  "orgqr_item_args T handle m n k a_ptr lda tau_ptr w_ptr buffersize info_ptr
       origin_n j =
     (let Work = reinterpret_cast T w_ptr
      in item_args (orgqr_call handle m n k lda Work buffersize)
           (orgqr_advance m k origin_n) (orgqr_vars T a_ptr tau_ptr info_ptr) j)"

paragraph \<open>HIP (lines 241-282)\<close>

definition orgqr_vars_hip :: "ctype \<Rightarrow> int \<Rightarrow> int \<Rightarrow> int \<Rightarrow> ptr \<times> ptr \<times> ptr" where
  "orgqr_vars_hip T a_ptr tau_ptr info_ptr =
     (reinterpret_cast T a_ptr, reinterpret_cast T tau_ptr, reinterpret_cast CInt info_ptr)"

text \<open>The call \<open>func(handle, m, n, k, A, lda, Tau, Work, buffersize, devInfo)\<close> of lines 273-274.\<close>

definition orgqr_call_hip ::
  "int \<Rightarrow> int \<Rightarrow> int \<Rightarrow> int \<Rightarrow> int \<Rightarrow> ptr \<Rightarrow> int \<Rightarrow> ptr \<times> ptr \<times> ptr \<Rightarrow> orgqr_args" where
  "orgqr_call_hip handle m n k lda Work buffersize =
     (\<lambda>(A, Tau, devInfo).
        \<lparr>gqr_handle = handle, gqr_m = m, gqr_n = n, gqr_k = k, gqr_A = A, gqr_lda = lda,
         gqr_Tau = Tau, gqr_Work = Work, gqr_lwork = buffersize, gqr_devInfo = devInfo\<rparr>)"

text \<open>The increments of lines 276-278.\<close>

definition orgqr_advance_hip :: "int \<Rightarrow> int \<Rightarrow> int \<Rightarrow> ptr \<times> ptr \<times> ptr \<Rightarrow> ptr \<times> ptr \<times> ptr" where
  "orgqr_advance_hip m k origin_n =
     (\<lambda>(A, Tau, devInfo).
        (ptr_add A (as_int (m * origin_n)), ptr_add Tau k, ptr_add devInfo 1))"

definition orgqr_loop_hip ::
  "('w \<Rightarrow> orgqr_args \<Rightarrow> int \<times> 'w) \<Rightarrow> ctype \<Rightarrow> int \<Rightarrow> int \<Rightarrow> int \<Rightarrow> int \<Rightarrow> int \<Rightarrow> int \<Rightarrow> int \<Rightarrow> int \<Rightarrow> int
     \<Rightarrow> int \<Rightarrow> int \<Rightarrow> int \<Rightarrow> 'w \<Rightarrow> (orgqr_args, 'w) run" where
  "orgqr_loop_hip func T handle m n k a_ptr lda tau_ptr w_ptr buffersize info_ptr batch_size
       origin_n w =
     (let Work = reinterpret_cast T w_ptr
      in for_loop func (orgqr_call_hip handle m n k lda Work buffersize)
           (orgqr_advance_hip m k origin_n) 0 batch_size (orgqr_vars_hip T a_ptr tau_ptr info_ptr)
           \<lparr>status = None, calls = [], world = w\<rparr>)"

definition orgqr_item_status_hip ::
  "('w \<Rightarrow> orgqr_args \<Rightarrow> int \<times> 'w) \<Rightarrow> ctype \<Rightarrow> int \<Rightarrow> int \<Rightarrow> int \<Rightarrow> int \<Rightarrow> int \<Rightarrow> int \<Rightarrow> int \<Rightarrow> int \<Rightarrow> int
     \<Rightarrow> int \<Rightarrow> int \<Rightarrow> 'w \<Rightarrow> nat \<Rightarrow> int" where
  "orgqr_item_status_hip func T handle m n k a_ptr lda tau_ptr w_ptr buffersize info_ptr
       origin_n w j =
     (let Work = reinterpret_cast T w_ptr
      in item_status func (orgqr_call_hip handle m n k lda Work buffersize)
           (orgqr_advance_hip m k origin_n) (orgqr_vars_hip T a_ptr tau_ptr info_ptr) w j)"

definition orgqr_item_args_hip ::
  "ctype \<Rightarrow> int \<Rightarrow> int \<Rightarrow> int \<Rightarrow> int \<Rightarrow> int \<Rightarrow> int \<Rightarrow> int \<Rightarrow> int \<Rightarrow> int
     \<Rightarrow> int \<Rightarrow> int \<Rightarrow> nat \<Rightarrow> orgqr_args" where
  "orgqr_item_args_hip T handle m n k a_ptr lda tau_ptr w_ptr buffersize info_ptr
       origin_n j =
     (let Work = reinterpret_cast T w_ptr
      in item_args (orgqr_call_hip handle m n k lda Work buffersize)
           (orgqr_advance_hip m k origin_n) (orgqr_vars_hip T a_ptr tau_ptr info_ptr) j)"

section \<open>The soft-link loader of \<open>_softlink.pyx\<close>\<close>

text \<open>
  A Python exception is kept as the name of its type, its message (\<open>str(e)\<close>) and the
  exception it was raised \<open>from\<close>. A function that may raise returns \<open>exn + 'a\<close>.
\<close>

datatype exn = Exn (exn_type: string) (exn_msg: string) (exn_cause: "exn option")

subsection \<open>\<open>get_hipfuncname\<close>\<close>

text \<open>
  \<open>CUDA_TO_HIP_MAPPINGS\<close> belongs to the package \<open>hipify_torch\<close> and is a parameter
  here: a list of dictionaries, each from a CUDA name to the sequence of its HIP
  counterparts. The loop returns from the first dictionary that has the name; indexing an
  empty sequence with \<open>[0]\<close> raises \<open>IndexError\<close>.
\<close>

type_synonym hip_map = "string \<rightharpoonup> string list"

fun get_hipfuncname :: "hip_map list \<Rightarrow> string \<Rightarrow> exn + string" where
  "get_hipfuncname [] cudafuncname = Inr cudafuncname"
| "get_hipfuncname (cuda_to_hip_map # cuda_to_hip_map_list) cudafuncname =
     (case cuda_to_hip_map cudafuncname of
        Some equivalents \<Rightarrow>
          (case equivalents of
             [] \<Rightarrow> Inl (Exn ''IndexError'' ''index out of range'' None)
           | hipfuncname # _ \<Rightarrow> Inr hipfuncname)
      | None \<Rightarrow> get_hipfuncname cuda_to_hip_map_list cudafuncname)"

subsection \<open>\<open>SoftLink\<close>\<close>

text \<open>
  An opened library (\<open>ctypes.CDLL\<close> object) is the table of its symbols, from name to
  address. The attribute \<open>_cdll\<close> is \<open>None\<close> or an opened library.
\<close>

type_synonym library = "string \<rightharpoonup> int"

record softlink =
  sl_error :: "exn option"
  sl_prefix :: string
  sl_cdll :: "library option"

text \<open>
  \<open>__init__\<close>. \<open>CDLL\<close> stands for \<open>ctypes.CDLL\<close> on the machine at hand: it gives
  the opened library or the exception (an instance of \<open>Exception\<close>) it raises. The result
  is the exception that leaves the constructor, or the constructed object with the
  messages passed to \<open>warnings.warn\<close>.
\<close>

definition SoftLink_init ::
  "(string \<Rightarrow> exn + library) \<Rightarrow> string option \<Rightarrow> string \<Rightarrow> bool \<Rightarrow> exn + softlink \<times> string list" where
  "SoftLink_init CDLL libname prefix' mandatory =
     (case libname of
        None \<Rightarrow>
          Inr (\<lparr>sl_error = Some (Exn ''RuntimeError''
                   ''The library is unavailable in the current platform.'' None),
                sl_prefix = prefix', sl_cdll = None\<rparr>, [])
      | Some name \<Rightarrow>
          (case CDLL name of
             Inr lib \<Rightarrow> Inr (\<lparr>sl_error = None, sl_prefix = prefix', sl_cdll = Some lib\<rparr>, [])
           | Inl e \<Rightarrow>
               (let msg = ''CuPy failed to load '' @ name @ '': '' @ exn_type e @ '': '' @ exn_msg e
                in if mandatory then Inl (Exn ''RuntimeError'' msg (Some e))
                   else Inr (\<lparr>sl_error = Some e, sl_prefix = prefix', sl_cdll = None\<rparr>, [msg]))))"

text \<open>
  The function pointer returned by \<open>get\<close>: the address of a symbol of the library, the
  address of one of the two stubs, or the null pointer.
\<close>

datatype func_ptr = Symbol int | Fail_unsupported | Fail_not_found | Null_func_ptr

text \<open>
  Lines 42-47: the name looked up in the library. \<open>hip_version\<close> is the compile-time
  constant \<open>CUPY_HIP_VERSION\<close>.
\<close>

definition SoftLink_funcname :: "int \<Rightarrow> hip_map list \<Rightarrow> softlink \<Rightarrow> string \<Rightarrow> exn + string" where
  "SoftLink_funcname hip_version table self name =
     (let cudafuncname = sl_prefix self @ name
      in if hip_version \<noteq> 0 then get_hipfuncname table cudafuncname else Inr cudafuncname)"

text \<open>
  \<open>get\<close> is declared \<open>cdef func_ptr get(self, str name)\<close> with no \<open>except\<close> clause.
  With the Cython 0.29 that the repository builds with, an exception raised in such a
  function does not leave it: it is reported as unraisable and the function returns the
  default value of its return type, here the null pointer. So \<open>get\<close> always returns a
  pointer, and the exception alternative of its result type stays unused.
\<close>

definition SoftLink_get :: "int \<Rightarrow> hip_map list \<Rightarrow> softlink \<Rightarrow> string \<Rightarrow> exn + func_ptr" where
  "SoftLink_get hip_version table self name =
     (case sl_cdll self of
        None \<Rightarrow> Inr Fail_unsupported
      | Some lib \<Rightarrow>
          (case SoftLink_funcname hip_version table self name of
             Inl e \<Rightarrow> Inr Null_func_ptr
           | Inr funcname \<Rightarrow>
               (case lib funcname of
                  None \<Rightarrow> Inr Fail_not_found
                | Some ptr \<Rightarrow> Inr (Symbol ptr))))"

subsection \<open>The stubs\<close>

text \<open>
  Both stubs are declared \<open>cdef int ... except -1\<close> and consist of a \<open>raise\<close>: the
  result of a call is the exception, never an \<open>int\<close>.
\<close>

definition newline :: string where
  "newline = [CHR 0x0A]"

definition issues_url :: string where
  "issues_url = ''https://github.com/cupy/cupy/issues''"

definition unsupported_message :: string where
  "unsupported_message =
     newline @ ''*** The requested function is not supported in the current version of''
     @ newline @ ''*** the toolkit installed in your environment.''
     @ newline @ ''***''
     @ newline @ ''*** This is likely a bug in CuPy. Please report this issue to:''
     @ newline @ ''***   https://github.com/cupy/cupy/issues''
     @ newline"

definition not_found_message :: string where
  "not_found_message =
     newline @ ''*** The requested function could not be found in the library.''
     @ newline @ ''***''
     @ newline @ ''*** This is likely a bug in CuPy. Please report this issue to:''
     @ newline @ ''***   https://github.com/cupy/cupy/issues''
     @ newline"

definition fail_unsupported :: "exn + int" where
  "fail_unsupported = Inl (Exn ''AssertionError'' unsupported_message None)"

definition fail_not_found :: "exn + int" where
  "fail_not_found = Inl (Exn ''AssertionError'' not_found_message None)"

section \<open>Vendor functions for the examples\<close>

text \<open>
  \<open>scripted answers\<close> is a vendor function that keeps count of the calls it has served
  (the count is its state of the world) and answers call number \<open>w\<close> with the status
  \<open>answers ! w\<close>, and with 0 once the list is used up. \<open>needs_workspace lwork_min\<close>
  is a stateless Q-reconstruction entry point that rejects, with status 7, a workspace of
  fewer than \<open>lwork_min\<close> elements.
\<close>

definition scripted :: "int list \<Rightarrow> nat \<Rightarrow> 'c \<Rightarrow> int \<times> nat" where
  "scripted answers w c = ((if w < length answers then answers ! w else 0), Suc w)"

definition needs_workspace :: "int \<Rightarrow> 'w \<Rightarrow> orgqr_args \<Rightarrow> int \<times> 'w" where
  "needs_workspace lwork_min w c = ((if gqr_lwork c < lwork_min then 7 else 0), w)"

section \<open>Properties of the loop\<close>

declare for_loop.simps [simp del]

lemma item_world_shift:
  "item_world func mk adv p w (Suc j) = item_world func mk adv (adv p) (snd (func w (mk p))) j"
  by (induction j) (simp_all add: funpow_swap1)

lemma item_status_shift:
  "item_status func mk adv p w (Suc j) = item_status func mk adv (adv p) (snd (func w (mk p))) j"
  unfolding item_status_def item_world_shift by (simp add: funpow_swap1)

lemma item_args_upt_shift:
  "map (item_args mk adv p) [0..<Suc l] = mk p # map (item_args mk adv (adv p)) [0..<l]"
proof -
  have "[0..<Suc l] = 0 # map Suc [0..<l]"
    by (simp add: upt_conv_Cons map_Suc_upt del: upt_Suc)
  then show ?thesis
    by (simp add: comp_def item_args_def funpow_swap1 del: upt_Suc)
qed

lemma for_loop_exit: "\<not> i < n \<Longrightarrow> for_loop func mk adv i n p r = r"
  by (simp add: for_loop.simps)

lemma for_loop_break:
  "i < n \<Longrightarrow> fst (func (world r) (mk p)) \<noteq> 0 \<Longrightarrow>
   for_loop func mk adv i n p r =
     \<lparr>status = Some (fst (func (world r) (mk p))), calls = calls r @ [mk p],
      world = snd (func (world r) (mk p))\<rparr>"
  by (simp add: for_loop.simps case_prod_beta)

lemma for_loop_continue:
  "i < n \<Longrightarrow> fst (func (world r) (mk p)) = 0 \<Longrightarrow>
   for_loop func mk adv i n p r =
     for_loop func mk adv (i + 1) n (adv p)
       \<lparr>status = Some 0, calls = calls r @ [mk p], world = snd (func (world r) (mk p))\<rparr>"
  by (subst for_loop.simps) (simp add: case_prod_beta)

lemma for_loop_fails_at:
  "k < nat (n - i) \<Longrightarrow> \<forall>j<k. item_status func mk adv p (world r) j = 0 \<Longrightarrow>
   item_status func mk adv p (world r) k \<noteq> 0 \<Longrightarrow>
   for_loop func mk adv i n p r =
     \<lparr>status = Some (item_status func mk adv p (world r) k),
      calls = calls r @ map (item_args mk adv p) [0..<Suc k],
      world = item_world func mk adv p (world r) (Suc k)\<rparr>"
proof (induction k arbitrary: i p r)
  case 0
  then have "i < n" and "fst (func (world r) (mk p)) \<noteq> 0"
    by (simp_all add: item_status_def)
  then show ?case
    by (simp add: for_loop_break item_status_def item_args_def)
next
  case (Suc k)
  let ?r = "\<lparr>status = Some 0, calls = calls r @ [mk p], world = snd (func (world r) (mk p))\<rparr>"
  from Suc.prems have lt: "i < n" and z: "fst (func (world r) (mk p)) = 0"
    by (auto simp: item_status_def dest: spec [of _ 0])
  have k: "k < nat (n - (i + 1))" using Suc.prems(1) by linarith
  have a: "\<forall>j<k. item_status func mk adv (adv p) (world ?r) j = 0"
    using Suc.prems(2) by (auto simp: item_status_shift [symmetric])
  have b: "item_status func mk adv (adv p) (world ?r) k \<noteq> 0"
    using Suc.prems(3) by (simp add: item_status_shift)
  show ?case
    unfolding for_loop_continue [where func = func and mk = mk and p = p and r = r, OF lt z] Suc.IH [OF k a b]
    by (simp add: item_status_shift item_world_shift item_args_upt_shift [of mk adv p "Suc k"]
        del: upt_Suc item_world.simps)
qed

lemma for_loop_all_ok:
  "l = nat (n - i) \<Longrightarrow> i < n \<Longrightarrow> \<forall>j<l. item_status func mk adv p (world r) j = 0 \<Longrightarrow>
   for_loop func mk adv i n p r =
     \<lparr>status = Some 0,
      calls = calls r @ map (item_args mk adv p) [0..<l],
      world = item_world func mk adv p (world r) l\<rparr>"
proof (induction l arbitrary: i p r)
  case 0
  then show ?case by simp
next
  case (Suc l)
  let ?r = "\<lparr>status = Some 0, calls = calls r @ [mk p], world = snd (func (world r) (mk p))\<rparr>"
  from Suc.prems have lt: "i < n" and z: "fst (func (world r) (mk p)) = 0"
    by (auto simp: item_status_def dest: spec [of _ 0])
  have l: "l = nat (n - (i + 1))" using Suc.prems(1) by linarith
  have a: "\<forall>j<l. item_status func mk adv (adv p) (world ?r) j = 0"
    using Suc.prems(3) by (auto simp: item_status_shift [symmetric])
  show ?case
  proof (cases "i + 1 < n")
    case True
    show ?thesis
      unfolding for_loop_continue [where func = func and mk = mk and p = p and r = r, OF lt z] Suc.IH [OF l True a]
      by (simp add: item_world_shift item_args_upt_shift [of mk adv p l]
          del: upt_Suc item_world.simps)
  next
    case False
    with l have "l = 0" by simp
    with False show ?thesis
      unfolding for_loop_continue [where func = func and mk = mk and p = p and r = r, OF lt z]
      by (simp add: for_loop_exit item_args_def)
  qed
qed


lemma first_failure:
  fixes l :: nat and f :: "nat \<Rightarrow> int"
  assumes "\<exists>k<l. f k \<noteq> 0"
  shows "\<exists>k<l. f k \<noteq> 0 \<and> (\<forall>j<k. f j = 0)"
proof -
  from assms have "\<exists>k. k < l \<and> f k \<noteq> 0" by blast
  then obtain k where k: "k < l \<and> f k \<noteq> 0" and least: "\<forall>j<k. \<not> (j < l \<and> f j \<noteq> 0)"
    unfolding exists_least_iff [of "\<lambda>k. k < l \<and> f k \<noteq> 0"] by blast
  have "\<forall>j<k. f j = 0"
  proof (intro allI impI)
    fix j assume "j < k"
    with k least show "f j = 0" by auto
  qed
  with k show ?thesis by blast
qed

lemma for_loop_cases:
  obtains (exit) "\<not> i < n" "for_loop func mk adv i n p r = r"
  | (fail) k where "k < nat (n - i)" "\<forall>j<k. item_status func mk adv p (world r) j = 0"
      "item_status func mk adv p (world r) k \<noteq> 0"
      "for_loop func mk adv i n p r =
         \<lparr>status = Some (item_status func mk adv p (world r) k),
          calls = calls r @ map (item_args mk adv p) [0..<Suc k],
          world = item_world func mk adv p (world r) (Suc k)\<rparr>"
  | (ok) "i < n" "\<forall>j<nat (n - i). item_status func mk adv p (world r) j = 0"
      "for_loop func mk adv i n p r =
         \<lparr>status = Some 0,
          calls = calls r @ map (item_args mk adv p) [0..<nat (n - i)],
          world = item_world func mk adv p (world r) (nat (n - i))\<rparr>"
proof (cases "i < n")
  case False
  show ?thesis by (rule exit [OF False for_loop_exit [OF False]])
next
  case True
  show ?thesis
  proof (cases "\<exists>k<nat (n - i). item_status func mk adv p (world r) k \<noteq> 0")
    case True
    from first_failure [OF this] obtain k where
      k: "k < nat (n - i)" "item_status func mk adv p (world r) k \<noteq> 0"
         "\<forall>j<k. item_status func mk adv p (world r) j = 0"
      by blast
    show ?thesis
      using fail [OF k(1) k(3) k(2)] for_loop_fails_at [OF k(1) k(3) k(2)] by blast
  next
    case False
    then have a: "\<forall>j<nat (n - i). item_status func mk adv p (world r) j = 0" by blast
    show ?thesis
      using ok [OF \<open>i < n\<close> a] for_loop_all_ok [OF refl \<open>i < n\<close> a] by blast
  qed
qed

lemma for_loop_status_assigned:
  "i < n \<Longrightarrow> \<exists>st. status (for_loop func mk adv i n p r) = Some st"
  by (cases rule: for_loop_cases [of i n func mk adv p r]) simp_all


lemma for_loop_calls_prefix:
  "\<exists>l\<le>nat (n - i). calls (for_loop func mk adv i n p r) = calls r @ map (item_args mk adv p) [0..<l]"
proof (cases rule: for_loop_cases [of i n func mk adv p r])
  case exit
  then show ?thesis by (intro exI [of _ 0]) simp
next
  case (fail k)
  then show ?thesis by (intro exI [of _ "Suc k"]) simp
next
  case ok
  then show ?thesis by (intro exI [of _ "nat (n - i)"]) simp
qed

text \<open>The same for a whole dispatch, which starts at \<open>i = 0\<close> with no call made.\<close>

lemma for_loop_empty0:
  "n \<le> 0 \<Longrightarrow> for_loop func mk adv 0 n p r = r"
  by (simp add: for_loop_exit)

lemma for_loop_assigned0:
  "1 \<le> n \<Longrightarrow> \<exists>st. status (for_loop func mk adv 0 n p r) = Some st"
  by (rule for_loop_status_assigned) simp

lemma for_loop_fails_at0:
  assumes "item < nat n"
    and "\<forall>j<item. item_status func mk adv p w j = 0"
    and "item_status func mk adv p w item \<noteq> 0"
  shows "status (for_loop func mk adv 0 n p \<lparr>status = None, calls = [], world = w\<rparr>) =
           Some (item_status func mk adv p w item)"
    and "calls (for_loop func mk adv 0 n p \<lparr>status = None, calls = [], world = w\<rparr>) =
           map (item_args mk adv p) [0..<Suc item]"
    and "world (for_loop func mk adv 0 n p \<lparr>status = None, calls = [], world = w\<rparr>) =
           item_world func mk adv p w (Suc item)"
  using assms
    for_loop_fails_at [where i = 0 and n = n and k = item and func = func and mk = mk
      and adv = adv and p = p and r = "\<lparr>status = None, calls = [], world = w\<rparr>"]
  by simp_all


lemma for_loop_calls_prefix0:
  "\<exists>l\<le>nat n. calls (for_loop func mk adv 0 n p \<lparr>status = None, calls = [], world = w\<rparr>) =
     map (item_args mk adv p) [0..<l]"
  using for_loop_calls_prefix [where i = 0 and n = n and func = func and mk = mk and adv = adv
      and p = p and r = "\<lparr>status = None, calls = [], world = w\<rparr>"]
  by simp

text \<open>
  Two dispatches whose calls for each item get the same answer from the vendor function
  return the same status, leave the same world and make the same number of calls.
\<close>

lemma item_world_cong:
  assumes "\<And>j w. func w (item_args mk1 adv1 p1 j) = func w (item_args mk2 adv2 p2 j)"
  shows "item_world func mk1 adv1 p1 w j = item_world func mk2 adv2 p2 w j"
proof (induction j)
  case 0
  show ?case by simp
next
  case (Suc j)
  show ?case
    using assms [of "item_world func mk2 adv2 p2 w j" j]
    by (simp add: Suc.IH item_args_def)
qed

lemma item_status_cong:
  assumes "\<And>j w. func w (item_args mk1 adv1 p1 j) = func w (item_args mk2 adv2 p2 j)"
  shows "item_status func mk1 adv1 p1 w j = item_status func mk2 adv2 p2 w j"
  using assms [of "item_world func mk2 adv2 p2 w j" j]
  by (simp add: item_status_def item_world_cong [OF assms] item_args_def)

lemma for_loop_cong0:
  assumes "\<And>j w. func w (item_args mk1 adv1 p1 j) = func w (item_args mk2 adv2 p2 j)"
  shows "\<exists>l. status (for_loop func mk1 adv1 0 n p1 \<lparr>status = None, calls = [], world = w\<rparr>) =
              status (for_loop func mk2 adv2 0 n p2 \<lparr>status = None, calls = [], world = w\<rparr>)
    \<and> world (for_loop func mk1 adv1 0 n p1 \<lparr>status = None, calls = [], world = w\<rparr>) =
       world (for_loop func mk2 adv2 0 n p2 \<lparr>status = None, calls = [], world = w\<rparr>)
    \<and> calls (for_loop func mk1 adv1 0 n p1 \<lparr>status = None, calls = [], world = w\<rparr>) =
       map (item_args mk1 adv1 p1) [0..<l]
    \<and> calls (for_loop func mk2 adv2 0 n p2 \<lparr>status = None, calls = [], world = w\<rparr>) =
       map (item_args mk2 adv2 p2) [0..<l]"
proof -
  let ?r = "\<lparr>status = None, calls = [], world = w\<rparr> :: ('b, 'a) run"
  note st = item_status_cong [OF assms]
  note wo = item_world_cong [OF assms]
  show ?thesis
  proof (cases rule: for_loop_cases [of 0 n func mk1 adv1 p1 ?r])
    case exit
    then have "for_loop func mk2 adv2 0 n p2 ?r = ?r" by (simp add: for_loop_exit)
    with exit show ?thesis by (intro exI [of _ 0]) simp
  next
    case (fail k)
    from fail(1-3) have
      "for_loop func mk2 adv2 0 n p2 ?r =
         \<lparr>status = Some (item_status func mk2 adv2 p2 (world ?r) k),
          calls = calls ?r @ map (item_args mk2 adv2 p2) [0..<Suc k],
          world = item_world func mk2 adv2 p2 (world ?r) (Suc k)\<rparr>"
      by (intro for_loop_fails_at) (simp_all add: st)
    with fail(4) show ?thesis
      by (intro exI [of _ "Suc k"]) (simp add: st wo del: upt_Suc item_world.simps)
  next
    case ok
    from ok(1,2) have
      "for_loop func mk2 adv2 0 n p2 ?r =
         \<lparr>status = Some 0,
          calls = calls ?r @ map (item_args mk2 adv2 p2) [0..<nat (n - 0)],
          world = item_world func mk2 adv2 p2 (world ?r) (nat (n - 0))\<rparr>"
      by (intro for_loop_all_ok) (simp_all add: st)
    with ok(3) show ?thesis
      by (intro exI [of _ "nat n"]) (simp add: wo)
  qed
qed

lemma item_world_scripted: "item_world (scripted rs) mk adv p w j = w + j"
  by (induction j) (simp_all add: scripted_def)

lemma item_status_scripted:
  "item_status (scripted rs) mk adv p w j = (if w + j < length rs then rs ! (w + j) else 0)"
  by (simp add: item_status_def item_world_scripted scripted_def)

lemma for_loop_scripted_step:
  "i < n \<Longrightarrow>
   for_loop (scripted rs) mk adv i n p r =
     (if (if world r < length rs then rs ! world r else 0) \<noteq> 0
      then \<lparr>status = Some (rs ! world r), calls = calls r @ [mk p], world = Suc (world r)\<rparr>
      else for_loop (scripted rs) mk adv (i + 1) n (adv p)
             \<lparr>status = Some 0, calls = calls r @ [mk p], world = Suc (world r)\<rparr>)"
  by (subst for_loop.simps) (auto simp: scripted_def)

lemma all_less_2: "(\<forall>j<2. P j) \<longleftrightarrow> P 0 \<and> P (Suc 0)"
  by (auto simp: numeral_2_eq_2 All_less_Suc)

section \<open>Properties of the dispatchers\<close>

subsection \<open>Each dispatcher is an instance of the loop\<close>

lemma gesvd_loop_empty:
  "batch_size \<le> 0 \<Longrightarrow>
   gesvd_loop func T handle jobu jobvt m n a_ptr s_ptr u_ptr vt_ptr w_ptr buffersize info_ptr
       batch_size w =
     \<lparr>status = None, calls = [], world = w\<rparr>"
  unfolding gesvd_loop_def Let_def by (rule for_loop_empty0)

lemma gesvd_loop_assigned:
  "1 \<le> batch_size \<Longrightarrow>
   \<exists>st. status (gesvd_loop func T handle jobu jobvt m n a_ptr s_ptr u_ptr vt_ptr w_ptr
       buffersize info_ptr batch_size w) = Some st"
  unfolding gesvd_loop_def Let_def by (rule for_loop_assigned0)

lemma gesvd_loop_fails_at:
  assumes "item < nat batch_size"
    and "\<forall>j<item. gesvd_item_status func T handle jobu jobvt m n a_ptr s_ptr u_ptr
        vt_ptr w_ptr buffersize info_ptr w j = 0"
    and "gesvd_item_status func T handle jobu jobvt m n a_ptr s_ptr u_ptr vt_ptr w_ptr
        buffersize info_ptr w item \<noteq> 0"
  shows "status (gesvd_loop func T handle jobu jobvt m n a_ptr s_ptr u_ptr vt_ptr w_ptr
      buffersize info_ptr batch_size w) =
           Some (gesvd_item_status func T handle jobu jobvt m n a_ptr s_ptr u_ptr vt_ptr w_ptr
               buffersize info_ptr w item)
    \<and> length (calls (gesvd_loop func T handle jobu jobvt m n a_ptr s_ptr u_ptr vt_ptr
        w_ptr buffersize info_ptr batch_size w)) = Suc item
    \<and> calls (gesvd_loop func T handle jobu jobvt m n a_ptr s_ptr u_ptr vt_ptr w_ptr
        buffersize info_ptr batch_size w) =
        map (\<lambda>j. gesvd_item_args T handle jobu jobvt m n a_ptr s_ptr u_ptr vt_ptr w_ptr
            buffersize info_ptr j) [0..<Suc item]"
proof -
  have c: "calls (gesvd_loop func T handle jobu jobvt m n a_ptr s_ptr u_ptr vt_ptr w_ptr
      buffersize info_ptr batch_size w) =
      map (\<lambda>j. gesvd_item_args T handle jobu jobvt m n a_ptr s_ptr u_ptr vt_ptr w_ptr
          buffersize info_ptr j) [0..<Suc item]"
    using assms unfolding gesvd_loop_def gesvd_item_status_def gesvd_item_args_def Let_def
    by (rule for_loop_fails_at0)
  have s: "status (gesvd_loop func T handle jobu jobvt m n a_ptr s_ptr u_ptr vt_ptr w_ptr
      buffersize info_ptr batch_size w) =
      Some (gesvd_item_status func T handle jobu jobvt m n a_ptr s_ptr u_ptr vt_ptr w_ptr
          buffersize info_ptr w item)"
    using assms unfolding gesvd_loop_def gesvd_item_status_def gesvd_item_args_def Let_def
    by (rule for_loop_fails_at0)
  show ?thesis
    unfolding s unfolding c by simp
qed


lemma geqrf_loop_empty:
  "batch_size \<le> 0 \<Longrightarrow>
   geqrf_loop func T handle m n a_ptr lda tau_ptr w_ptr buffersize info_ptr batch_size w =
     \<lparr>status = None, calls = [], world = w\<rparr>"
  unfolding geqrf_loop_def Let_def by (rule for_loop_empty0)

lemma geqrf_loop_assigned:
  "1 \<le> batch_size \<Longrightarrow>
   \<exists>st. status (geqrf_loop func T handle m n a_ptr lda tau_ptr w_ptr buffersize
       info_ptr batch_size w) = Some st"
  unfolding geqrf_loop_def Let_def by (rule for_loop_assigned0)

lemma geqrf_loop_fails_at:
  assumes "item < nat batch_size"
    and "\<forall>j<item. geqrf_item_status func T handle m n a_ptr lda tau_ptr w_ptr
        buffersize info_ptr w j = 0"
    and "geqrf_item_status func T handle m n a_ptr lda tau_ptr w_ptr buffersize info_ptr w item
        \<noteq> 0"
  shows "status (geqrf_loop func T handle m n a_ptr lda tau_ptr w_ptr buffersize info_ptr
      batch_size w) =
           Some (geqrf_item_status func T handle m n a_ptr lda tau_ptr w_ptr buffersize
               info_ptr w item)
    \<and> length (calls (geqrf_loop func T handle m n a_ptr lda tau_ptr w_ptr buffersize
        info_ptr batch_size w)) = Suc item
    \<and> calls (geqrf_loop func T handle m n a_ptr lda tau_ptr w_ptr buffersize info_ptr
        batch_size w) =
        map (\<lambda>j. geqrf_item_args T handle m n a_ptr lda tau_ptr w_ptr buffersize
            info_ptr j) [0..<Suc item]"
proof -
  have c: "calls (geqrf_loop func T handle m n a_ptr lda tau_ptr w_ptr buffersize info_ptr
      batch_size w) =
      map (\<lambda>j. geqrf_item_args T handle m n a_ptr lda tau_ptr w_ptr buffersize info_ptr
          j) [0..<Suc item]"
    using assms unfolding geqrf_loop_def geqrf_item_status_def geqrf_item_args_def Let_def
    by (rule for_loop_fails_at0)
  have s: "status (geqrf_loop func T handle m n a_ptr lda tau_ptr w_ptr buffersize info_ptr
      batch_size w) =
      Some (geqrf_item_status func T handle m n a_ptr lda tau_ptr w_ptr buffersize info_ptr w
          item)"
    using assms unfolding geqrf_loop_def geqrf_item_status_def geqrf_item_args_def Let_def
    by (rule for_loop_fails_at0)
  show ?thesis
    unfolding s unfolding c by simp
qed


lemma orgqr_loop_empty:
  "batch_size \<le> 0 \<Longrightarrow>
   orgqr_loop func T handle m n k a_ptr lda tau_ptr w_ptr buffersize info_ptr batch_size
       origin_n w =
     \<lparr>status = None, calls = [], world = w\<rparr>"
  unfolding orgqr_loop_def Let_def by (rule for_loop_empty0)

lemma orgqr_loop_assigned:
  "1 \<le> batch_size \<Longrightarrow>
   \<exists>st. status (orgqr_loop func T handle m n k a_ptr lda tau_ptr w_ptr buffersize
       info_ptr batch_size origin_n w) = Some st"
  unfolding orgqr_loop_def Let_def by (rule for_loop_assigned0)

lemma orgqr_loop_fails_at:
  assumes "item < nat batch_size"
    and "\<forall>j<item. orgqr_item_status func T handle m n k a_ptr lda tau_ptr w_ptr
        buffersize info_ptr origin_n w j = 0"
    and "orgqr_item_status func T handle m n k a_ptr lda tau_ptr w_ptr buffersize info_ptr
        origin_n w item \<noteq> 0"
  shows "status (orgqr_loop func T handle m n k a_ptr lda tau_ptr w_ptr buffersize info_ptr
      batch_size origin_n w) =
           Some (orgqr_item_status func T handle m n k a_ptr lda tau_ptr w_ptr buffersize
               info_ptr origin_n w item)
    \<and> length (calls (orgqr_loop func T handle m n k a_ptr lda tau_ptr w_ptr buffersize
        info_ptr batch_size origin_n w)) = Suc item
    \<and> calls (orgqr_loop func T handle m n k a_ptr lda tau_ptr w_ptr buffersize info_ptr
        batch_size origin_n w) =
        map (\<lambda>j. orgqr_item_args T handle m n k a_ptr lda tau_ptr w_ptr buffersize
            info_ptr origin_n j) [0..<Suc item]"
proof -
  have c: "calls (orgqr_loop func T handle m n k a_ptr lda tau_ptr w_ptr buffersize info_ptr
      batch_size origin_n w) =
      map (\<lambda>j. orgqr_item_args T handle m n k a_ptr lda tau_ptr w_ptr buffersize
          info_ptr origin_n j) [0..<Suc item]"
    using assms unfolding orgqr_loop_def orgqr_item_status_def orgqr_item_args_def Let_def
    by (rule for_loop_fails_at0)
  have s: "status (orgqr_loop func T handle m n k a_ptr lda tau_ptr w_ptr buffersize info_ptr
      batch_size origin_n w) =
      Some (orgqr_item_status func T handle m n k a_ptr lda tau_ptr w_ptr buffersize info_ptr
          origin_n w item)"
    using assms unfolding orgqr_loop_def orgqr_item_status_def orgqr_item_args_def Let_def
    by (rule for_loop_fails_at0)
  show ?thesis
    unfolding s unfolding c by simp
qed

lemma orgqr_loop_calls_prefix:
  "\<exists>l\<le>nat batch_size.
     calls (orgqr_loop func T handle m n k a_ptr lda tau_ptr w_ptr buffersize info_ptr
         batch_size origin_n w) =
     map (\<lambda>j. orgqr_item_args T handle m n k a_ptr lda tau_ptr w_ptr buffersize
         info_ptr origin_n j) [0..<l]"
  unfolding orgqr_loop_def orgqr_item_status_def orgqr_item_args_def Let_def by (rule
      for_loop_calls_prefix0)

lemma geqrf_loop_hip_empty:
  "batch_size \<le> 0 \<Longrightarrow>
   geqrf_loop_hip func T handle m n a_ptr lda tau_ptr w_ptr buffersize info_ptr batch_size w =
     \<lparr>status = None, calls = [], world = w\<rparr>"
  unfolding geqrf_loop_hip_def Let_def by (rule for_loop_empty0)

lemma geqrf_loop_hip_assigned:
  "1 \<le> batch_size \<Longrightarrow>
   \<exists>st. status (geqrf_loop_hip func T handle m n a_ptr lda tau_ptr w_ptr buffersize
       info_ptr batch_size w) = Some st"
  unfolding geqrf_loop_hip_def Let_def by (rule for_loop_assigned0)

lemma geqrf_loop_hip_fails_at:
  assumes "item < nat batch_size"
    and "\<forall>j<item. geqrf_item_status_hip func T handle m n a_ptr lda tau_ptr w_ptr
        buffersize info_ptr w j = 0"
    and "geqrf_item_status_hip func T handle m n a_ptr lda tau_ptr w_ptr buffersize info_ptr w
        item \<noteq> 0"
  shows "status (geqrf_loop_hip func T handle m n a_ptr lda tau_ptr w_ptr buffersize info_ptr
      batch_size w) =
           Some (geqrf_item_status_hip func T handle m n a_ptr lda tau_ptr w_ptr buffersize
               info_ptr w item)
    \<and> length (calls (geqrf_loop_hip func T handle m n a_ptr lda tau_ptr w_ptr buffersize
        info_ptr batch_size w)) = Suc item
    \<and> calls (geqrf_loop_hip func T handle m n a_ptr lda tau_ptr w_ptr buffersize info_ptr
        batch_size w) =
        map (\<lambda>j. geqrf_item_args_hip T handle m n a_ptr lda tau_ptr w_ptr buffersize
            info_ptr j) [0..<Suc item]"
proof -
  have c: "calls (geqrf_loop_hip func T handle m n a_ptr lda tau_ptr w_ptr buffersize info_ptr
      batch_size w) =
      map (\<lambda>j. geqrf_item_args_hip T handle m n a_ptr lda tau_ptr w_ptr buffersize
          info_ptr j) [0..<Suc item]"
    using assms unfolding geqrf_loop_hip_def geqrf_item_status_hip_def geqrf_item_args_hip_def
        Let_def
    by (rule for_loop_fails_at0)
  have s: "status (geqrf_loop_hip func T handle m n a_ptr lda tau_ptr w_ptr buffersize info_ptr
      batch_size w) =
      Some (geqrf_item_status_hip func T handle m n a_ptr lda tau_ptr w_ptr buffersize info_ptr
          w item)"
    using assms unfolding geqrf_loop_hip_def geqrf_item_status_hip_def geqrf_item_args_hip_def
        Let_def
    by (rule for_loop_fails_at0)
  show ?thesis
    unfolding s unfolding c by simp
qed


lemma orgqr_loop_hip_empty:
  "batch_size \<le> 0 \<Longrightarrow>
   orgqr_loop_hip func T handle m n k a_ptr lda tau_ptr w_ptr buffersize info_ptr batch_size
       origin_n w =
     \<lparr>status = None, calls = [], world = w\<rparr>"
  unfolding orgqr_loop_hip_def Let_def by (rule for_loop_empty0)

lemma orgqr_loop_hip_assigned:
  "1 \<le> batch_size \<Longrightarrow>
   \<exists>st. status (orgqr_loop_hip func T handle m n k a_ptr lda tau_ptr w_ptr buffersize
       info_ptr batch_size origin_n w) = Some st"
  unfolding orgqr_loop_hip_def Let_def by (rule for_loop_assigned0)

lemma orgqr_loop_hip_fails_at:
  assumes "item < nat batch_size"
    and "\<forall>j<item. orgqr_item_status_hip func T handle m n k a_ptr lda tau_ptr w_ptr
        buffersize info_ptr origin_n w j = 0"
    and "orgqr_item_status_hip func T handle m n k a_ptr lda tau_ptr w_ptr buffersize info_ptr
        origin_n w item \<noteq> 0"
  shows "status (orgqr_loop_hip func T handle m n k a_ptr lda tau_ptr w_ptr buffersize info_ptr
      batch_size origin_n w) =
           Some (orgqr_item_status_hip func T handle m n k a_ptr lda tau_ptr w_ptr buffersize
               info_ptr origin_n w item)
    \<and> length (calls (orgqr_loop_hip func T handle m n k a_ptr lda tau_ptr w_ptr buffersize
        info_ptr batch_size origin_n w)) = Suc item
    \<and> calls (orgqr_loop_hip func T handle m n k a_ptr lda tau_ptr w_ptr buffersize
        info_ptr batch_size origin_n w) =
        map (\<lambda>j. orgqr_item_args_hip T handle m n k a_ptr lda tau_ptr w_ptr buffersize
            info_ptr origin_n j) [0..<Suc item]"
proof -
  have c: "calls (orgqr_loop_hip func T handle m n k a_ptr lda tau_ptr w_ptr buffersize
      info_ptr batch_size origin_n w) =
      map (\<lambda>j. orgqr_item_args_hip T handle m n k a_ptr lda tau_ptr w_ptr buffersize
          info_ptr origin_n j) [0..<Suc item]"
    using assms unfolding orgqr_loop_hip_def orgqr_item_status_hip_def orgqr_item_args_hip_def
        Let_def
    by (rule for_loop_fails_at0)
  have s: "status (orgqr_loop_hip func T handle m n k a_ptr lda tau_ptr w_ptr buffersize
      info_ptr batch_size origin_n w) =
      Some (orgqr_item_status_hip func T handle m n k a_ptr lda tau_ptr w_ptr buffersize
          info_ptr origin_n w item)"
    using assms unfolding orgqr_loop_hip_def orgqr_item_status_hip_def orgqr_item_args_hip_def
        Let_def
    by (rule for_loop_fails_at0)
  show ?thesis
    unfolding s unfolding c by simp
qed

subsection \<open>The arguments of the call for item \<open>j\<close>\<close>

lemma as_int_exact: "in_int_range x \<Longrightarrow> as_int x = x"
  by (simp add: in_int_range_def as_int_def)



lemma ptr_add_0: "ptr_add p 0 = p"
  by (simp add: ptr_add_def)

lemma ptr_add_add: "ptr_add (ptr_add p a) b = ptr_add p (a + b)"
  by (simp add: ptr_add_def)




lemma orgqr_advance_funpow:
  "(orgqr_advance m k origin_n ^^ j) (A, Tau, devInfo) =
     (ptr_add A (int j * as_int (m * origin_n)), ptr_add Tau (int j * k),
      ptr_add devInfo (int j))"
proof (induction j)
  case 0
  show ?case by (simp add: ptr_add_0)
next
  case (Suc j)
  show ?case
    unfolding funpow.simps comp_def Suc.IH
    by (simp add: orgqr_advance_def ptr_add_add algebra_simps)
qed

lemma orgqr_advance_hip_funpow:
  "(orgqr_advance_hip m k origin_n ^^ j) (A, Tau, devInfo) =
     (ptr_add A (int j * as_int (m * origin_n)), ptr_add Tau (int j * k),
      ptr_add devInfo (int j))"
proof (induction j)
  case 0
  show ?case by (simp add: ptr_add_0)
next
  case (Suc j)
  show ?case
    unfolding funpow.simps comp_def Suc.IH
    by (simp add: orgqr_advance_hip_def ptr_add_add algebra_simps)
qed




lemma orgqr_item_args_closed:
  "orgqr_item_args T handle m n k a_ptr lda tau_ptr w_ptr buffersize info_ptr origin_n j =
     \<lparr>gqr_handle = handle, gqr_m = m, gqr_n = n, gqr_k = k,
      gqr_A = \<lparr>pointee = T, base = a_ptr, elems = int j * as_int (m * origin_n)\<rparr>,
      gqr_lda = lda,
      gqr_Tau = \<lparr>pointee = T, base = tau_ptr, elems = int j * k\<rparr>,
      gqr_Work = \<lparr>pointee = T, base = w_ptr, elems = 0\<rparr>,
      gqr_lwork = buffersize,
      gqr_devInfo = \<lparr>pointee = CInt, base = info_ptr, elems = int j\<rparr>\<rparr>"
  unfolding orgqr_item_args_def Let_def item_args_def orgqr_vars_def orgqr_advance_funpow
  by (simp add: orgqr_call_def ptr_add_def reinterpret_cast_def)

lemma orgqr_item_args_hip_closed:
  "orgqr_item_args_hip T handle m n k a_ptr lda tau_ptr w_ptr buffersize info_ptr origin_n j =
     \<lparr>gqr_handle = handle, gqr_m = m, gqr_n = n, gqr_k = k,
      gqr_A = \<lparr>pointee = T, base = a_ptr, elems = int j * as_int (m * origin_n)\<rparr>,
      gqr_lda = lda,
      gqr_Tau = \<lparr>pointee = T, base = tau_ptr, elems = int j * k\<rparr>,
      gqr_Work = \<lparr>pointee = T, base = w_ptr, elems = 0\<rparr>,
      gqr_lwork = buffersize,
      gqr_devInfo = \<lparr>pointee = CInt, base = info_ptr, elems = int j\<rparr>\<rparr>"
  unfolding orgqr_item_args_hip_def Let_def item_args_def orgqr_vars_hip_def
    orgqr_advance_hip_funpow
  by (simp add: orgqr_call_hip_def ptr_add_def reinterpret_cast_def)

subsection \<open>The two variants of \<open>orgqr_loop\<close>\<close>

lemma orgqr_loop_hip_eq:
  "orgqr_loop_hip func T handle m n k a_ptr lda tau_ptr w_ptr buffersize info_ptr batch_size
     origin_n w =
   orgqr_loop func T handle m n k a_ptr lda tau_ptr w_ptr buffersize info_ptr batch_size
     origin_n w"
proof -
  have "orgqr_call_hip = orgqr_call"
    by (intro ext) (simp add: orgqr_call_hip_def orgqr_call_def)
  moreover have "orgqr_advance_hip = orgqr_advance"
    by (intro ext) (simp add: orgqr_advance_hip_def orgqr_advance_def)
  moreover have "orgqr_vars_hip = orgqr_vars"
    by (intro ext) (simp add: orgqr_vars_hip_def orgqr_vars_def)
  ultimately show ?thesis
    by (simp add: orgqr_loop_hip_def orgqr_loop_def)
qed

subsection \<open>The claims\<close>


text \<open>
  C7. On the HIP backend \<open>gesvd_loop\<close> returns status 0 for every input, whatever
  \<open>batch_size\<close> is, makes no vendor call and leaves the world as it found it.
\<close>

theorem gesvd_loop_hip_noop:
  "status (gesvd_loop_hip T handle jobu jobvt m n a_ptr s_ptr u_ptr vt_ptr w_ptr buffersize
     info_ptr batch_size w) = Some 0
   \<and> calls (gesvd_loop_hip T handle jobu jobvt m n a_ptr s_ptr u_ptr vt_ptr w_ptr buffersize
     info_ptr batch_size w) = []
   \<and> world (gesvd_loop_hip T handle jobu jobvt m n a_ptr s_ptr u_ptr vt_ptr w_ptr buffersize
     info_ptr batch_size w) = w"
  by (simp add: gesvd_loop_hip_def)

text \<open>
  C1. Let the vendor function return 0 for the items \<open>0, ..., item - 1\<close> of a batch
  and a nonzero status for item \<open>item < batch_size\<close>. Then each loop-based dispatcher
  (\<open>gesvd_loop\<close>, \<open>geqrf_loop\<close>, \<open>orgqr_loop\<close> on CUDA, \<open>geqrf_loop\<close>,
  \<open>orgqr_loop\<close> on HIP) returns that status, has called the vendor function exactly
  \<open>item + 1\<close> times, and the calls are those for the items \<open>0, ..., item\<close> in order:
  nothing is called for a later item.
\<close>

theorem dispatcher_halts_on_first_failure:
  "(item < nat batch_size
      \<and> (\<forall>j<item. gesvd_item_status fsvd T handle jobu jobvt m n a_ptr s_ptr u_ptr
          vt_ptr w_ptr buffersize info_ptr w j = 0)
      \<and> gesvd_item_status fsvd T handle jobu jobvt m n a_ptr s_ptr u_ptr vt_ptr w_ptr
          buffersize info_ptr w item \<noteq> 0
    \<longrightarrow>
      status (gesvd_loop fsvd T handle jobu jobvt m n a_ptr s_ptr u_ptr vt_ptr w_ptr buffersize
          info_ptr batch_size w) =
        Some (gesvd_item_status fsvd T handle jobu jobvt m n a_ptr s_ptr u_ptr vt_ptr w_ptr
            buffersize info_ptr w item)
      \<and> length (calls (gesvd_loop fsvd T handle jobu jobvt m n a_ptr s_ptr u_ptr vt_ptr
          w_ptr buffersize info_ptr batch_size w)) = Suc item
      \<and> calls (gesvd_loop fsvd T handle jobu jobvt m n a_ptr s_ptr u_ptr vt_ptr w_ptr
          buffersize info_ptr batch_size w) =
          map (\<lambda>j. gesvd_item_args T handle jobu jobvt m n a_ptr s_ptr u_ptr vt_ptr
              w_ptr buffersize info_ptr j) [0..<Suc item])
   \<and> (item < nat batch_size
      \<and> (\<forall>j<item. geqrf_item_status fqrf T handle m n a_ptr lda tau_ptr w_ptr
          buffersize info_ptr w j = 0)
      \<and> geqrf_item_status fqrf T handle m n a_ptr lda tau_ptr w_ptr buffersize info_ptr w
          item \<noteq> 0
    \<longrightarrow>
      status (geqrf_loop fqrf T handle m n a_ptr lda tau_ptr w_ptr buffersize info_ptr
          batch_size w) =
        Some (geqrf_item_status fqrf T handle m n a_ptr lda tau_ptr w_ptr buffersize info_ptr w
            item)
      \<and> length (calls (geqrf_loop fqrf T handle m n a_ptr lda tau_ptr w_ptr buffersize
          info_ptr batch_size w)) = Suc item
      \<and> calls (geqrf_loop fqrf T handle m n a_ptr lda tau_ptr w_ptr buffersize info_ptr
          batch_size w) =
          map (\<lambda>j. geqrf_item_args T handle m n a_ptr lda tau_ptr w_ptr buffersize
              info_ptr j) [0..<Suc item])
   \<and> (item < nat batch_size
      \<and> (\<forall>j<item. orgqr_item_status fgqr T handle m n k a_ptr lda tau_ptr w_ptr
          buffersize info_ptr origin_n w j = 0)
      \<and> orgqr_item_status fgqr T handle m n k a_ptr lda tau_ptr w_ptr buffersize info_ptr
          origin_n w item \<noteq> 0
    \<longrightarrow>
      status (orgqr_loop fgqr T handle m n k a_ptr lda tau_ptr w_ptr buffersize info_ptr
          batch_size origin_n w) =
        Some (orgqr_item_status fgqr T handle m n k a_ptr lda tau_ptr w_ptr buffersize info_ptr
            origin_n w item)
      \<and> length (calls (orgqr_loop fgqr T handle m n k a_ptr lda tau_ptr w_ptr buffersize
          info_ptr batch_size origin_n w)) = Suc item
      \<and> calls (orgqr_loop fgqr T handle m n k a_ptr lda tau_ptr w_ptr buffersize info_ptr
          batch_size origin_n w) =
          map (\<lambda>j. orgqr_item_args T handle m n k a_ptr lda tau_ptr w_ptr buffersize
              info_ptr origin_n j) [0..<Suc item])
   \<and> (item < nat batch_size
      \<and> (\<forall>j<item. geqrf_item_status_hip fqrf_hip T handle m n a_ptr lda tau_ptr
          w_ptr buffersize info_ptr w j = 0)
      \<and> geqrf_item_status_hip fqrf_hip T handle m n a_ptr lda tau_ptr w_ptr buffersize
          info_ptr w item \<noteq> 0
    \<longrightarrow>
      status (geqrf_loop_hip fqrf_hip T handle m n a_ptr lda tau_ptr w_ptr buffersize info_ptr
          batch_size w) =
        Some (geqrf_item_status_hip fqrf_hip T handle m n a_ptr lda tau_ptr w_ptr buffersize
            info_ptr w item)
      \<and> length (calls (geqrf_loop_hip fqrf_hip T handle m n a_ptr lda tau_ptr w_ptr
          buffersize info_ptr batch_size w)) = Suc item
      \<and> calls (geqrf_loop_hip fqrf_hip T handle m n a_ptr lda tau_ptr w_ptr buffersize
          info_ptr batch_size w) =
          map (\<lambda>j. geqrf_item_args_hip T handle m n a_ptr lda tau_ptr w_ptr buffersize
              info_ptr j) [0..<Suc item])
   \<and> (item < nat batch_size
      \<and> (\<forall>j<item. orgqr_item_status_hip fgqr_hip T handle m n k a_ptr lda tau_ptr
          w_ptr buffersize info_ptr origin_n w j = 0)
      \<and> orgqr_item_status_hip fgqr_hip T handle m n k a_ptr lda tau_ptr w_ptr buffersize
          info_ptr origin_n w item \<noteq> 0
    \<longrightarrow>
      status (orgqr_loop_hip fgqr_hip T handle m n k a_ptr lda tau_ptr w_ptr buffersize
          info_ptr batch_size origin_n w) =
        Some (orgqr_item_status_hip fgqr_hip T handle m n k a_ptr lda tau_ptr w_ptr buffersize
            info_ptr origin_n w item)
      \<and> length (calls (orgqr_loop_hip fgqr_hip T handle m n k a_ptr lda tau_ptr w_ptr
          buffersize info_ptr batch_size origin_n w)) = Suc item
      \<and> calls (orgqr_loop_hip fgqr_hip T handle m n k a_ptr lda tau_ptr w_ptr buffersize
          info_ptr batch_size origin_n w) =
          map (\<lambda>j. orgqr_item_args_hip T handle m n k a_ptr lda tau_ptr w_ptr
              buffersize info_ptr origin_n j) [0..<Suc item])"
proof (intro conjI impI; (elim conjE)?)
  assume h: "item < nat batch_size"
    "\<forall>j<item. gesvd_item_status fsvd T handle jobu jobvt m n a_ptr s_ptr u_ptr vt_ptr
        w_ptr buffersize info_ptr w j = 0"
    "gesvd_item_status fsvd T handle jobu jobvt m n a_ptr s_ptr u_ptr vt_ptr w_ptr buffersize
        info_ptr w item \<noteq> 0"
  from gesvd_loop_fails_at [OF h]
  show "status (gesvd_loop fsvd T handle jobu jobvt m n a_ptr s_ptr u_ptr vt_ptr w_ptr
      buffersize info_ptr batch_size w) =
      Some (gesvd_item_status fsvd T handle jobu jobvt m n a_ptr s_ptr u_ptr vt_ptr w_ptr
          buffersize info_ptr w item)"
    and "length (calls (gesvd_loop fsvd T handle jobu jobvt m n a_ptr s_ptr u_ptr vt_ptr w_ptr
        buffersize info_ptr batch_size w)) = Suc item"
    and "calls (gesvd_loop fsvd T handle jobu jobvt m n a_ptr s_ptr u_ptr vt_ptr w_ptr
        buffersize info_ptr batch_size w) =
      map (\<lambda>j. gesvd_item_args T handle jobu jobvt m n a_ptr s_ptr u_ptr vt_ptr w_ptr
          buffersize info_ptr j) [0..<Suc item]"
    by blast+
next
  assume h: "item < nat batch_size"
    "\<forall>j<item. geqrf_item_status fqrf T handle m n a_ptr lda tau_ptr w_ptr buffersize
        info_ptr w j = 0"
    "geqrf_item_status fqrf T handle m n a_ptr lda tau_ptr w_ptr buffersize info_ptr w item
        \<noteq> 0"
  from geqrf_loop_fails_at [OF h]
  show "status (geqrf_loop fqrf T handle m n a_ptr lda tau_ptr w_ptr buffersize info_ptr
      batch_size w) =
      Some (geqrf_item_status fqrf T handle m n a_ptr lda tau_ptr w_ptr buffersize info_ptr w
          item)"
    and "length (calls (geqrf_loop fqrf T handle m n a_ptr lda tau_ptr w_ptr buffersize
        info_ptr batch_size w)) = Suc item"
    and "calls (geqrf_loop fqrf T handle m n a_ptr lda tau_ptr w_ptr buffersize info_ptr
        batch_size w) =
      map (\<lambda>j. geqrf_item_args T handle m n a_ptr lda tau_ptr w_ptr buffersize info_ptr
          j) [0..<Suc item]"
    by blast+
next
  assume h: "item < nat batch_size"
    "\<forall>j<item. orgqr_item_status fgqr T handle m n k a_ptr lda tau_ptr w_ptr buffersize
        info_ptr origin_n w j = 0"
    "orgqr_item_status fgqr T handle m n k a_ptr lda tau_ptr w_ptr buffersize info_ptr origin_n
        w item \<noteq> 0"
  from orgqr_loop_fails_at [OF h]
  show "status (orgqr_loop fgqr T handle m n k a_ptr lda tau_ptr w_ptr buffersize info_ptr
      batch_size origin_n w) =
      Some (orgqr_item_status fgqr T handle m n k a_ptr lda tau_ptr w_ptr buffersize info_ptr
          origin_n w item)"
    and "length (calls (orgqr_loop fgqr T handle m n k a_ptr lda tau_ptr w_ptr buffersize
        info_ptr batch_size origin_n w)) = Suc item"
    and "calls (orgqr_loop fgqr T handle m n k a_ptr lda tau_ptr w_ptr buffersize info_ptr
        batch_size origin_n w) =
      map (\<lambda>j. orgqr_item_args T handle m n k a_ptr lda tau_ptr w_ptr buffersize
          info_ptr origin_n j) [0..<Suc item]"
    by blast+
next
  assume h: "item < nat batch_size"
    "\<forall>j<item. geqrf_item_status_hip fqrf_hip T handle m n a_ptr lda tau_ptr w_ptr
        buffersize info_ptr w j = 0"
    "geqrf_item_status_hip fqrf_hip T handle m n a_ptr lda tau_ptr w_ptr buffersize info_ptr w
        item \<noteq> 0"
  from geqrf_loop_hip_fails_at [OF h]
  show "status (geqrf_loop_hip fqrf_hip T handle m n a_ptr lda tau_ptr w_ptr buffersize
      info_ptr batch_size w) =
      Some (geqrf_item_status_hip fqrf_hip T handle m n a_ptr lda tau_ptr w_ptr buffersize
          info_ptr w item)"
    and "length (calls (geqrf_loop_hip fqrf_hip T handle m n a_ptr lda tau_ptr w_ptr buffersize
        info_ptr batch_size w)) = Suc item"
    and "calls (geqrf_loop_hip fqrf_hip T handle m n a_ptr lda tau_ptr w_ptr buffersize
        info_ptr batch_size w) =
      map (\<lambda>j. geqrf_item_args_hip T handle m n a_ptr lda tau_ptr w_ptr buffersize
          info_ptr j) [0..<Suc item]"
    by blast+
next
  assume h: "item < nat batch_size"
    "\<forall>j<item. orgqr_item_status_hip fgqr_hip T handle m n k a_ptr lda tau_ptr w_ptr
        buffersize info_ptr origin_n w j = 0"
    "orgqr_item_status_hip fgqr_hip T handle m n k a_ptr lda tau_ptr w_ptr buffersize info_ptr
        origin_n w item \<noteq> 0"
  from orgqr_loop_hip_fails_at [OF h]
  show "status (orgqr_loop_hip fgqr_hip T handle m n k a_ptr lda tau_ptr w_ptr buffersize
      info_ptr batch_size origin_n w) =
      Some (orgqr_item_status_hip fgqr_hip T handle m n k a_ptr lda tau_ptr w_ptr buffersize
          info_ptr origin_n w item)"
    and "length (calls (orgqr_loop_hip fgqr_hip T handle m n k a_ptr lda tau_ptr w_ptr
        buffersize info_ptr batch_size origin_n w)) = Suc item"
    and "calls (orgqr_loop_hip fgqr_hip T handle m n k a_ptr lda tau_ptr w_ptr buffersize
        info_ptr batch_size origin_n w) =
      map (\<lambda>j. orgqr_item_args_hip T handle m n k a_ptr lda tau_ptr w_ptr buffersize
          info_ptr origin_n j) [0..<Suc item]"
    by blast+
qed

theorem dispatcher_halts_on_first_failure_witness:
  "status (gesvd_loop (scripted [0, 0, 7]) CFloat 1 (CHR ''A'') (CHR ''S'') 3 2 1000 2000 3000 4000
      5000 64 6000 5 0) = Some 7
   \<and> length (calls (gesvd_loop (scripted [0, 0, 7]) CFloat 1 (CHR ''A'') (CHR ''S'') 3 2 1000 2000
      3000 4000 5000 64 6000 5 0)) = 3
   \<and> status (geqrf_loop (scripted [0, 0, 7]) CFloat 1 3 2 1000 3 2000 5000 64 6000 5 0) = Some 7
   \<and> length (calls (geqrf_loop (scripted [0, 0, 7]) CFloat 1 3 2 1000 3 2000 5000 64 6000 5 0)) = 3
   \<and> status (orgqr_loop (scripted [0, 0, 7]) CFloat 1 3 2 2 1000 3 2000 5000 64 6000 5 2 0) = Some 7
   \<and> length (calls (orgqr_loop (scripted [0, 0, 7]) CFloat 1 3 2 2 1000 3 2000 5000 64 6000 5 2 0)) = 3
   \<and> status (geqrf_loop_hip (scripted [0, 0, 7]) CFloat 1 3 2 1000 3 2000 5000 64 6000 5 0) = Some 7
   \<and> length (calls (geqrf_loop_hip (scripted [0, 0, 7]) CFloat 1 3 2 1000 3 2000 5000 64 6000 5 0)) = 3
   \<and> status (orgqr_loop_hip (scripted [0, 0, 7]) CFloat 1 3 2 2 1000 3 2000 5000 64 6000 5 2 0) = Some 7
   \<and> length (calls (orgqr_loop_hip (scripted [0, 0, 7]) CFloat 1 3 2 2 1000 3 2000 5000 64 6000 5 2 0)) = 3"
  using dispatcher_halts_on_first_failure [where item = 2 and batch_size = 5 and w = "0::nat"
      and fsvd = "scripted [0, 0, 7]" and fqrf = "scripted [0, 0, 7]" and fgqr = "scripted [0, 0, 7]"
      and fqrf_hip = "scripted [0, 0, 7]" and fgqr_hip = "scripted [0, 0, 7]"
      and T = CFloat and handle = 1 and jobu = "CHR ''A''" and jobvt = "CHR ''S''" and m = 3
      and n = 2 and k = 2 and a_ptr = 1000 and s_ptr = 2000 and u_ptr = 3000 and vt_ptr = 4000
      and lda = 3 and tau_ptr = 2000 and w_ptr = 5000 and buffersize = 64 and info_ptr = 6000
      and origin_n = 2]
  by (simp add: gesvd_item_status_def geqrf_item_status_def orgqr_item_status_def
      geqrf_item_status_hip_def orgqr_item_status_hip_def item_status_scripted all_less_2
      del: upt_Suc)

text \<open>
  C9. With \<open>batch_size \<le> 0\<close> each loop-based dispatcher makes no vendor call, leaves
  the world alone and returns the local \<open>status\<close> without ever having assigned it. The
  returned status is an assigned value exactly when \<open>batch_size \<ge> 1\<close>.
\<close>

theorem empty_batch_status_unassigned:
  "(batch_size \<le> 0 \<longrightarrow>
      gesvd_loop fsvd T handle jobu jobvt m n a_ptr s_ptr u_ptr vt_ptr w_ptr buffersize
          info_ptr batch_size w =
        \<lparr>status = None, calls = [], world = w\<rparr>)
   \<and> ((\<exists>st. status (gesvd_loop fsvd T handle jobu jobvt m n a_ptr s_ptr u_ptr
       vt_ptr w_ptr buffersize info_ptr batch_size w) = Some st)
      \<longleftrightarrow> 1 \<le> batch_size)
   \<and> (batch_size \<le> 0 \<longrightarrow>
      geqrf_loop fqrf T handle m n a_ptr lda tau_ptr w_ptr buffersize info_ptr batch_size w =
        \<lparr>status = None, calls = [], world = w\<rparr>)
   \<and> ((\<exists>st. status (geqrf_loop fqrf T handle m n a_ptr lda tau_ptr w_ptr
       buffersize info_ptr batch_size w) = Some st)
      \<longleftrightarrow> 1 \<le> batch_size)
   \<and> (batch_size \<le> 0 \<longrightarrow>
      orgqr_loop fgqr T handle m n k a_ptr lda tau_ptr w_ptr buffersize info_ptr batch_size
          origin_n w =
        \<lparr>status = None, calls = [], world = w\<rparr>)
   \<and> ((\<exists>st. status (orgqr_loop fgqr T handle m n k a_ptr lda tau_ptr w_ptr
       buffersize info_ptr batch_size origin_n w) = Some st)
      \<longleftrightarrow> 1 \<le> batch_size)
   \<and> (batch_size \<le> 0 \<longrightarrow>
      geqrf_loop_hip fqrf_hip T handle m n a_ptr lda tau_ptr w_ptr buffersize info_ptr
          batch_size w =
        \<lparr>status = None, calls = [], world = w\<rparr>)
   \<and> ((\<exists>st. status (geqrf_loop_hip fqrf_hip T handle m n a_ptr lda tau_ptr w_ptr
       buffersize info_ptr batch_size w) = Some st)
      \<longleftrightarrow> 1 \<le> batch_size)
   \<and> (batch_size \<le> 0 \<longrightarrow>
      orgqr_loop_hip fgqr_hip T handle m n k a_ptr lda tau_ptr w_ptr buffersize info_ptr
          batch_size origin_n w =
        \<lparr>status = None, calls = [], world = w\<rparr>)
   \<and> ((\<exists>st. status (orgqr_loop_hip fgqr_hip T handle m n k a_ptr lda tau_ptr w_ptr
       buffersize info_ptr batch_size origin_n w) = Some st)
      \<longleftrightarrow> 1 \<le> batch_size)"
proof -
  have "(\<exists>st. status (gesvd_loop fsvd T handle jobu jobvt m n a_ptr s_ptr u_ptr vt_ptr
      w_ptr buffersize info_ptr batch_size w) = Some st)
      \<longleftrightarrow> 1 \<le> batch_size"
    using gesvd_loop_assigned [of batch_size fsvd T handle jobu jobvt m n a_ptr s_ptr u_ptr
        vt_ptr w_ptr buffersize info_ptr w]
      gesvd_loop_empty [of batch_size fsvd T handle jobu jobvt m n a_ptr s_ptr u_ptr vt_ptr
          w_ptr buffersize info_ptr w]
    by (cases "1 \<le> batch_size") auto
  moreover
  have "(\<exists>st. status (geqrf_loop fqrf T handle m n a_ptr lda tau_ptr w_ptr buffersize
      info_ptr batch_size w) = Some st)
      \<longleftrightarrow> 1 \<le> batch_size"
    using geqrf_loop_assigned [of batch_size fqrf T handle m n a_ptr lda tau_ptr w_ptr
        buffersize info_ptr w]
      geqrf_loop_empty [of batch_size fqrf T handle m n a_ptr lda tau_ptr w_ptr buffersize
          info_ptr w]
    by (cases "1 \<le> batch_size") auto
  moreover
  have "(\<exists>st. status (orgqr_loop fgqr T handle m n k a_ptr lda tau_ptr w_ptr buffersize
      info_ptr batch_size origin_n w) = Some st)
      \<longleftrightarrow> 1 \<le> batch_size"
    using orgqr_loop_assigned [of batch_size fgqr T handle m n k a_ptr lda tau_ptr w_ptr
        buffersize info_ptr origin_n w]
      orgqr_loop_empty [of batch_size fgqr T handle m n k a_ptr lda tau_ptr w_ptr buffersize
          info_ptr origin_n w]
    by (cases "1 \<le> batch_size") auto
  moreover
  have "(\<exists>st. status (geqrf_loop_hip fqrf_hip T handle m n a_ptr lda tau_ptr w_ptr
      buffersize info_ptr batch_size w) = Some st)
      \<longleftrightarrow> 1 \<le> batch_size"
    using geqrf_loop_hip_assigned [of batch_size fqrf_hip T handle m n a_ptr lda tau_ptr w_ptr
        buffersize info_ptr w]
      geqrf_loop_hip_empty [of batch_size fqrf_hip T handle m n a_ptr lda tau_ptr w_ptr
          buffersize info_ptr w]
    by (cases "1 \<le> batch_size") auto
  moreover
  have "(\<exists>st. status (orgqr_loop_hip fgqr_hip T handle m n k a_ptr lda tau_ptr w_ptr
      buffersize info_ptr batch_size origin_n w) = Some st)
      \<longleftrightarrow> 1 \<le> batch_size"
    using orgqr_loop_hip_assigned [of batch_size fgqr_hip T handle m n k a_ptr lda tau_ptr
        w_ptr buffersize info_ptr origin_n w]
      orgqr_loop_hip_empty [of batch_size fgqr_hip T handle m n k a_ptr lda tau_ptr w_ptr
          buffersize info_ptr origin_n w]
    by (cases "1 \<le> batch_size") auto
  ultimately show ?thesis
    by (simp add: gesvd_loop_empty geqrf_loop_empty orgqr_loop_empty geqrf_loop_hip_empty
        orgqr_loop_hip_empty)
qed

theorem empty_batch_status_unassigned_witness:
  "gesvd_loop (scripted [0, 0, 7]) CFloat 1 (CHR ''A'') (CHR ''S'') 3 2 1000 2000 3000 4000
      5000 64 6000 0 0 = \<lparr>status = None, calls = [], world = 0\<rparr>
   \<and> geqrf_loop (scripted [0, 0, 7]) CFloat 1 3 2 1000 3 2000 5000 64 6000 0 0 =
       \<lparr>status = None, calls = [], world = 0\<rparr>
   \<and> orgqr_loop (scripted [0, 0, 7]) CFloat 1 3 2 2 1000 3 2000 5000 64 6000 0 2 0 =
       \<lparr>status = None, calls = [], world = 0\<rparr>
   \<and> geqrf_loop_hip (scripted [0, 0, 7]) CFloat 1 3 2 1000 3 2000 5000 64 6000 0 0 =
       \<lparr>status = None, calls = [], world = 0\<rparr>
   \<and> orgqr_loop_hip (scripted [0, 0, 7]) CFloat 1 3 2 2 1000 3 2000 5000 64 6000 0 2 0 =
       \<lparr>status = None, calls = [], world = 0\<rparr>
   \<and> (\<exists>st. status (gesvd_loop (scripted [0, 0, 7]) CFloat 1 (CHR ''A'') (CHR ''S'') 3 2 1000 2000
         3000 4000 5000 64 6000 1 0) = Some st)
   \<and> (\<exists>st. status (geqrf_loop (scripted [0, 0, 7]) CFloat 1 3 2 1000 3 2000 5000 64 6000 1 0) =
         Some st)
   \<and> (\<exists>st. status (orgqr_loop (scripted [0, 0, 7]) CFloat 1 3 2 2 1000 3 2000 5000 64 6000 1 2
         0) = Some st)
   \<and> (\<exists>st. status (geqrf_loop_hip (scripted [0, 0, 7]) CFloat 1 3 2 1000 3 2000 5000 64 6000 1
         0) = Some st)
   \<and> (\<exists>st. status (orgqr_loop_hip (scripted [0, 0, 7]) CFloat 1 3 2 2 1000 3 2000 5000 64 6000
         1 2 0) = Some st)"
  using empty_batch_status_unassigned [where batch_size = 0 and w = "0::nat"
      and fsvd = "scripted [0, 0, 7]" and fqrf = "scripted [0, 0, 7]" and fgqr = "scripted [0, 0, 7]"
      and fqrf_hip = "scripted [0, 0, 7]" and fgqr_hip = "scripted [0, 0, 7]"
      and T = CFloat and handle = 1 and jobu = "CHR ''A''" and jobvt = "CHR ''S''" and m = 3
      and n = 2 and k = 2 and a_ptr = 1000 and s_ptr = 2000 and u_ptr = 3000 and vt_ptr = 4000
      and lda = 3 and tau_ptr = 2000 and w_ptr = 5000 and buffersize = 64 and info_ptr = 6000
      and origin_n = 2]
    empty_batch_status_unassigned [where batch_size = 1 and w = "0::nat"
      and fsvd = "scripted [0, 0, 7]" and fqrf = "scripted [0, 0, 7]" and fgqr = "scripted [0, 0, 7]"
      and fqrf_hip = "scripted [0, 0, 7]" and fgqr_hip = "scripted [0, 0, 7]"
      and T = CFloat and handle = 1 and jobu = "CHR ''A''" and jobvt = "CHR ''S''" and m = 3
      and n = 2 and k = 2 and a_ptr = 1000 and s_ptr = 2000 and u_ptr = 3000 and vt_ptr = 4000
      and lda = 3 and tau_ptr = 2000 and w_ptr = 5000 and buffersize = 64 and info_ptr = 6000
      and origin_n = 2]
  by simp





text \<open>
  C3, as the code has it. The CUDA and the HIP variant of \<open>orgqr_loop\<close> are the same
  function of their arguments and of the vendor entry point, and in both call \<open>i\<close>
  receives the matrix at \<open>a_ptr\<close> advanced by \<open>i\<close> times \<open>m * origin_n\<close> elements,
  where \<open>m * origin_n\<close> is the value of the source's \<open>int\<close> expression, and the product
  itself where that is representable in \<open>int\<close>.
\<close>

theorem orgqr_variants_agree:
  "orgqr_loop_hip func T handle m n k a_ptr lda tau_ptr w_ptr buffersize info_ptr batch_size
     origin_n w =
   orgqr_loop func T handle m n k a_ptr lda tau_ptr w_ptr buffersize info_ptr batch_size
     origin_n w
   \<and> (\<forall>i<length (calls (orgqr_loop func T handle m n k a_ptr lda tau_ptr w_ptr buffersize
          info_ptr batch_size origin_n w)).
        gqr_A (calls (orgqr_loop func T handle m n k a_ptr lda tau_ptr w_ptr buffersize
          info_ptr batch_size origin_n w) ! i) =
          \<lparr>pointee = T, base = a_ptr, elems = int i * as_int (m * origin_n)\<rparr>
        \<and> (in_int_range (m * origin_n) \<longrightarrow>
            gqr_A (calls (orgqr_loop func T handle m n k a_ptr lda tau_ptr w_ptr buffersize
          info_ptr batch_size origin_n w) ! i) =
              \<lparr>pointee = T, base = a_ptr, elems = int i * (m * origin_n)\<rparr>))"
proof -
  obtain l where l: "calls (orgqr_loop func T handle m n k a_ptr lda tau_ptr w_ptr buffersize
          info_ptr batch_size origin_n w) =
      map (\<lambda>j. orgqr_item_args T handle m n k a_ptr lda tau_ptr w_ptr buffersize info_ptr
        origin_n j) [0..<l]"
    by (meson orgqr_loop_calls_prefix)
  show ?thesis
    unfolding orgqr_loop_hip_eq l by (simp add: orgqr_item_args_closed as_int_exact)
qed

theorem orgqr_variants_agree_witness:
  "orgqr_loop_hip (scripted []) CFloat 1 4 6 6 1000 4 2000 5000 64 6000 3 10 (0::nat) =
     orgqr_loop (scripted []) CFloat 1 4 6 6 1000 4 2000 5000 64 6000 3 10 0
   \<and> gqr_A (calls (orgqr_loop (scripted []) CFloat 1 4 6 6 1000 4 2000 5000 64 6000 3 10
        (0::nat)) ! 2) = \<lparr>pointee = CFloat, base = 1000, elems = 80\<rparr>
   \<and> gqr_A (calls (orgqr_loop (scripted []) CFloat 1 50000 6 6 1000 50000 2000 5000 64 6000 3
        50000 (0::nat)) ! 2) = \<lparr>pointee = CFloat, base = 1000, elems = - 3589934592\<rparr>"
proof -
  have c: "(2::nat) < length (calls (orgqr_loop (scripted []) CFloat 1 4 6 6 1000 4 2000 5000 64
      6000 3 10 (0::nat)))"
    by (simp add: orgqr_loop_def Let_def for_loop_scripted_step for_loop_exit)
  have c': "(2::nat) < length (calls (orgqr_loop (scripted []) CFloat 1 50000 6 6 1000 50000 2000
      5000 64 6000 3 50000 (0::nat)))"
    by (simp add: orgqr_loop_def Let_def for_loop_scripted_step for_loop_exit)
  have r: "in_int_range (4 * 10)" by (simp add: in_int_range_def)
  show ?thesis
    using c c' r
      orgqr_variants_agree [where func = "scripted []" and T = CFloat and handle = 1 and m = 4
        and n = 6 and k = 6 and a_ptr = 1000 and lda = 4 and tau_ptr = 2000 and w_ptr = 5000
        and buffersize = 64 and info_ptr = 6000 and batch_size = 3 and origin_n = 10
        and w = "0::nat"]
      orgqr_variants_agree [where func = "scripted []" and T = CFloat and handle = 1
        and m = 50000 and n = 6 and k = 6 and a_ptr = 1000 and lda = 50000 and tau_ptr = 2000
        and w_ptr = 5000 and buffersize = 64 and info_ptr = 6000 and batch_size = 3
        and origin_n = 50000 and w = "0::nat"]
    by (simp add: as_int_def)
qed

text \<open>
  C3, as the claim is stated, fails: with \<open>m = 4\<close>, \<open>n = 6\<close>, \<open>origin_n = 10\<close> and
  three items that succeed, the matrix pointers of the calls are 0, 40 and 80 elements past
  \<open>a_ptr\<close> in the CUDA variant and in the HIP variant alike. Neither advances by
  \<open>m * n = 24\<close>.
\<close>

theorem orgqr_variants_differ_counterexample:
  "map (elems \<circ> gqr_A)
     (calls (orgqr_loop (scripted []) CFloat 1 4 6 6 1000 4 2000 5000 64 6000 3 10 (0::nat))) =
     [0, 40, 80]
   \<and> map (elems \<circ> gqr_A)
     (calls (orgqr_loop_hip (scripted []) CFloat 1 4 6 6 1000 4 2000 5000 64 6000 3 10 (0::nat))) =
     [0, 40, 80]"
  by (simp add: orgqr_loop_def orgqr_loop_hip_def Let_def for_loop_scripted_step for_loop_exit
      orgqr_call_def orgqr_call_hip_def orgqr_advance_def orgqr_advance_hip_def orgqr_vars_def
      orgqr_vars_hip_def ptr_add_def reinterpret_cast_def as_int_def)

lemma orgqr_loop_hip_calls_prefix:
  "\<exists>l\<le>nat batch_size.
     calls (orgqr_loop_hip func T handle m n k a_ptr lda tau_ptr w_ptr buffersize info_ptr
           batch_size origin_n w) =
     map (\<lambda>j. orgqr_item_args_hip T handle m n k a_ptr lda tau_ptr w_ptr buffersize info_ptr
       origin_n j) [0..<l]"
  unfolding orgqr_loop_hip_def orgqr_item_status_hip_def orgqr_item_args_hip_def Let_def
  by (rule for_loop_calls_prefix0)

lemma orgqr_loop_hip_forwarding:
  assumes "i < length (calls (orgqr_loop_hip func T handle m n k a_ptr lda tau_ptr w_ptr buffersize info_ptr
           batch_size origin_n w))"
  shows "gqr_Work (calls (orgqr_loop_hip func T handle m n k a_ptr lda tau_ptr w_ptr buffersize info_ptr
           batch_size origin_n w) ! i) = \<lparr>pointee = T, base = w_ptr, elems = 0\<rparr>
    \<and> gqr_lwork (calls (orgqr_loop_hip func T handle m n k a_ptr lda tau_ptr w_ptr buffersize info_ptr
           batch_size origin_n w) ! i) = buffersize
    \<and> gqr_devInfo (calls (orgqr_loop_hip func T handle m n k a_ptr lda tau_ptr w_ptr buffersize info_ptr
           batch_size origin_n w) ! i) = \<lparr>pointee = CInt, base = info_ptr, elems = int i\<rparr>"
proof -
  obtain l where l: "calls (orgqr_loop_hip func T handle m n k a_ptr lda tau_ptr w_ptr buffersize info_ptr
           batch_size origin_n w) =
      map (\<lambda>j. orgqr_item_args_hip T handle m n k a_ptr lda tau_ptr w_ptr buffersize info_ptr
        origin_n j) [0..<l]"
    by (meson orgqr_loop_hip_calls_prefix)
  show ?thesis
    using assms unfolding l by (simp add: orgqr_item_args_hip_closed)
qed

lemma orgqr_loop_hip_same_answers:
  assumes "\<forall>w c W l d. func w (c\<lparr>gqr_Work := W, gqr_lwork := l, gqr_devInfo := d\<rparr>) = func w c"
  shows "status (orgqr_loop_hip func T handle m n k a_ptr lda tau_ptr w_ptr buffersize info_ptr
           batch_size origin_n w) =
         status (orgqr_loop_hip func T handle m n k a_ptr lda tau_ptr w_ptr' buffersize' info_ptr'
           batch_size origin_n w)
    \<and> world (orgqr_loop_hip func T handle m n k a_ptr lda tau_ptr w_ptr buffersize info_ptr
           batch_size origin_n w) =
       world (orgqr_loop_hip func T handle m n k a_ptr lda tau_ptr w_ptr' buffersize' info_ptr'
           batch_size origin_n w)
    \<and> length (calls (orgqr_loop_hip func T handle m n k a_ptr lda tau_ptr w_ptr buffersize
           info_ptr batch_size origin_n w)) =
       length (calls (orgqr_loop_hip func T handle m n k a_ptr lda tau_ptr w_ptr' buffersize'
           info_ptr' batch_size origin_n w))
    \<and> (\<forall>i<length (calls (orgqr_loop_hip func T handle m n k a_ptr lda tau_ptr w_ptr buffersize
           info_ptr batch_size origin_n w)).
         calls (orgqr_loop_hip func T handle m n k a_ptr lda tau_ptr w_ptr buffersize info_ptr
           batch_size origin_n w) ! i =
         (calls (orgqr_loop_hip func T handle m n k a_ptr lda tau_ptr w_ptr' buffersize' info_ptr'
           batch_size origin_n w) ! i)
           \<lparr>gqr_Work := \<lparr>pointee = T, base = w_ptr, elems = 0\<rparr>,
            gqr_lwork := buffersize,
            gqr_devInfo := \<lparr>pointee = CInt, base = info_ptr, elems = int i\<rparr>\<rparr>)"
proof -
  have args: "orgqr_item_args_hip T handle m n k a_ptr lda tau_ptr w_ptr buffersize info_ptr
        origin_n j =
      (orgqr_item_args_hip T handle m n k a_ptr lda tau_ptr w_ptr' buffersize' info_ptr'
        origin_n j)
        \<lparr>gqr_Work := \<lparr>pointee = T, base = w_ptr, elems = 0\<rparr>,
         gqr_lwork := buffersize,
         gqr_devInfo := \<lparr>pointee = CInt, base = info_ptr, elems = int j\<rparr>\<rparr>" for j
    by (simp add: orgqr_item_args_hip_closed)
  have same: "func w (orgqr_item_args_hip T handle m n k a_ptr lda tau_ptr w_ptr buffersize info_ptr
        origin_n j) =
      func w (orgqr_item_args_hip T handle m n k a_ptr lda tau_ptr w_ptr' buffersize' info_ptr'
        origin_n j)" for j w
    unfolding args [of j] using assms by blast
  from for_loop_cong0 [where func = func, OF same [unfolded orgqr_item_args_hip_def Let_def]]
  obtain l where
    "status (orgqr_loop_hip func T handle m n k a_ptr lda tau_ptr w_ptr buffersize info_ptr
       batch_size origin_n w) =
     status (orgqr_loop_hip func T handle m n k a_ptr lda tau_ptr w_ptr' buffersize' info_ptr'
       batch_size origin_n w)"
    "world (orgqr_loop_hip func T handle m n k a_ptr lda tau_ptr w_ptr buffersize info_ptr
       batch_size origin_n w) =
     world (orgqr_loop_hip func T handle m n k a_ptr lda tau_ptr w_ptr' buffersize' info_ptr'
       batch_size origin_n w)"
    "calls (orgqr_loop_hip func T handle m n k a_ptr lda tau_ptr w_ptr buffersize info_ptr
       batch_size origin_n w) =
     map (\<lambda>j. orgqr_item_args_hip T handle m n k a_ptr lda tau_ptr w_ptr buffersize info_ptr
       origin_n j) [0..<l]"
    "calls (orgqr_loop_hip func T handle m n k a_ptr lda tau_ptr w_ptr' buffersize' info_ptr'
       batch_size origin_n w) =
     map (\<lambda>j. orgqr_item_args_hip T handle m n k a_ptr lda tau_ptr w_ptr' buffersize' info_ptr'
       origin_n j) [0..<l]"
    unfolding orgqr_loop_hip_def orgqr_item_args_hip_def Let_def by blast
  then show ?thesis
    using args by simp
qed

text \<open>
  C8, as the code has it, for \<open>orgqr_loop\<close> on HIP. The dispatcher forwards the
  workspace pointer and the workspace size unchanged, and the info pointer advanced by one
  \<open>int\<close> per item, to every vendor call. When the result of the vendor function does
  not depend on these three arguments, two invocations that differ only in \<open>w_ptr\<close>,
  \<open>buffersize\<close> or \<open>info_ptr\<close> return the same status, leave the same world and make
  the same number of vendor calls, which agree in every other argument.
\<close>

theorem orgqr_loop_hip_forwards_workspace:
  "(\<forall>i<length (calls (orgqr_loop_hip func T handle m n k a_ptr lda tau_ptr w_ptr buffersize info_ptr
           batch_size origin_n w)).
      gqr_Work (calls (orgqr_loop_hip func T handle m n k a_ptr lda tau_ptr w_ptr buffersize info_ptr
           batch_size origin_n w) ! i) = \<lparr>pointee = T, base = w_ptr, elems = 0\<rparr>
      \<and> gqr_lwork (calls (orgqr_loop_hip func T handle m n k a_ptr lda tau_ptr w_ptr buffersize info_ptr
           batch_size origin_n w) ! i) = buffersize
      \<and> gqr_devInfo (calls (orgqr_loop_hip func T handle m n k a_ptr lda tau_ptr w_ptr buffersize info_ptr
           batch_size origin_n w) ! i) = \<lparr>pointee = CInt, base = info_ptr, elems = int i\<rparr>)
   \<and> ((\<forall>w c W l d. func w (c\<lparr>gqr_Work := W, gqr_lwork := l, gqr_devInfo := d\<rparr>) = func w c)
      \<longrightarrow>
        status (orgqr_loop_hip func T handle m n k a_ptr lda tau_ptr w_ptr buffersize info_ptr
           batch_size origin_n w) =
        status (orgqr_loop_hip func T handle m n k a_ptr lda tau_ptr w_ptr' buffersize' info_ptr'
           batch_size origin_n w)
      \<and> world (orgqr_loop_hip func T handle m n k a_ptr lda tau_ptr w_ptr buffersize info_ptr
           batch_size origin_n w) =
        world (orgqr_loop_hip func T handle m n k a_ptr lda tau_ptr w_ptr' buffersize' info_ptr'
           batch_size origin_n w)
      \<and> length (calls (orgqr_loop_hip func T handle m n k a_ptr lda tau_ptr w_ptr buffersize info_ptr
           batch_size origin_n w)) =
        length (calls (orgqr_loop_hip func T handle m n k a_ptr lda tau_ptr w_ptr' buffersize' info_ptr'
           batch_size origin_n w))
      \<and> (\<forall>i<length (calls (orgqr_loop_hip func T handle m n k a_ptr lda tau_ptr w_ptr buffersize info_ptr
           batch_size origin_n w)).
           calls (orgqr_loop_hip func T handle m n k a_ptr lda tau_ptr w_ptr buffersize info_ptr
           batch_size origin_n w) ! i =
           (calls (orgqr_loop_hip func T handle m n k a_ptr lda tau_ptr w_ptr' buffersize' info_ptr'
           batch_size origin_n w) ! i)
             \<lparr>gqr_Work := \<lparr>pointee = T, base = w_ptr, elems = 0\<rparr>,
              gqr_lwork := buffersize,
              gqr_devInfo := \<lparr>pointee = CInt, base = info_ptr, elems = int i\<rparr>\<rparr>))"
proof (rule conjI)
  show "\<forall>i<length (calls (orgqr_loop_hip func T handle m n k a_ptr lda tau_ptr w_ptr buffersize info_ptr
           batch_size origin_n w)).
      gqr_Work (calls (orgqr_loop_hip func T handle m n k a_ptr lda tau_ptr w_ptr buffersize info_ptr
           batch_size origin_n w) ! i) = \<lparr>pointee = T, base = w_ptr, elems = 0\<rparr>
      \<and> gqr_lwork (calls (orgqr_loop_hip func T handle m n k a_ptr lda tau_ptr w_ptr buffersize info_ptr
           batch_size origin_n w) ! i) = buffersize
      \<and> gqr_devInfo (calls (orgqr_loop_hip func T handle m n k a_ptr lda tau_ptr w_ptr buffersize info_ptr
           batch_size origin_n w) ! i) = \<lparr>pointee = CInt, base = info_ptr, elems = int i\<rparr>"
    by (intro allI impI) (rule orgqr_loop_hip_forwarding)
next
  show "(\<forall>w c W l d. func w (c\<lparr>gqr_Work := W, gqr_lwork := l, gqr_devInfo := d\<rparr>) = func w c)
      \<longrightarrow>
        status (orgqr_loop_hip func T handle m n k a_ptr lda tau_ptr w_ptr buffersize info_ptr
           batch_size origin_n w) =
        status (orgqr_loop_hip func T handle m n k a_ptr lda tau_ptr w_ptr' buffersize' info_ptr'
           batch_size origin_n w)
      \<and> world (orgqr_loop_hip func T handle m n k a_ptr lda tau_ptr w_ptr buffersize info_ptr
           batch_size origin_n w) =
        world (orgqr_loop_hip func T handle m n k a_ptr lda tau_ptr w_ptr' buffersize' info_ptr'
           batch_size origin_n w)
      \<and> length (calls (orgqr_loop_hip func T handle m n k a_ptr lda tau_ptr w_ptr buffersize info_ptr
           batch_size origin_n w)) =
        length (calls (orgqr_loop_hip func T handle m n k a_ptr lda tau_ptr w_ptr' buffersize' info_ptr'
           batch_size origin_n w))
      \<and> (\<forall>i<length (calls (orgqr_loop_hip func T handle m n k a_ptr lda tau_ptr w_ptr buffersize info_ptr
           batch_size origin_n w)).
           calls (orgqr_loop_hip func T handle m n k a_ptr lda tau_ptr w_ptr buffersize info_ptr
           batch_size origin_n w) ! i =
           (calls (orgqr_loop_hip func T handle m n k a_ptr lda tau_ptr w_ptr' buffersize' info_ptr'
           batch_size origin_n w) ! i)
             \<lparr>gqr_Work := \<lparr>pointee = T, base = w_ptr, elems = 0\<rparr>,
              gqr_lwork := buffersize,
              gqr_devInfo := \<lparr>pointee = CInt, base = info_ptr, elems = int i\<rparr>\<rparr>)"
  proof (rule impI)
    assume ign: "\<forall>w c W l d.
        func w (c\<lparr>gqr_Work := W, gqr_lwork := l, gqr_devInfo := d\<rparr>) = func w c"
    show "status (orgqr_loop_hip func T handle m n k a_ptr lda tau_ptr w_ptr buffersize info_ptr
           batch_size origin_n w) =
        status (orgqr_loop_hip func T handle m n k a_ptr lda tau_ptr w_ptr' buffersize' info_ptr'
           batch_size origin_n w)
      \<and> world (orgqr_loop_hip func T handle m n k a_ptr lda tau_ptr w_ptr buffersize info_ptr
           batch_size origin_n w) =
        world (orgqr_loop_hip func T handle m n k a_ptr lda tau_ptr w_ptr' buffersize' info_ptr'
           batch_size origin_n w)
      \<and> length (calls (orgqr_loop_hip func T handle m n k a_ptr lda tau_ptr w_ptr buffersize info_ptr
           batch_size origin_n w)) =
        length (calls (orgqr_loop_hip func T handle m n k a_ptr lda tau_ptr w_ptr' buffersize' info_ptr'
           batch_size origin_n w))
      \<and> (\<forall>i<length (calls (orgqr_loop_hip func T handle m n k a_ptr lda tau_ptr w_ptr buffersize info_ptr
           batch_size origin_n w)).
           calls (orgqr_loop_hip func T handle m n k a_ptr lda tau_ptr w_ptr buffersize info_ptr
           batch_size origin_n w) ! i =
           (calls (orgqr_loop_hip func T handle m n k a_ptr lda tau_ptr w_ptr' buffersize' info_ptr'
           batch_size origin_n w) ! i)
             \<lparr>gqr_Work := \<lparr>pointee = T, base = w_ptr, elems = 0\<rparr>,
              gqr_lwork := buffersize,
              gqr_devInfo := \<lparr>pointee = CInt, base = info_ptr, elems = int i\<rparr>\<rparr>)"
      by (rule orgqr_loop_hip_same_answers [OF ign])
  qed
qed

theorem orgqr_loop_hip_forwards_workspace_witness:
  "gqr_lwork (calls (orgqr_loop_hip (needs_workspace 10) CFloat 1 3 2 2 1000 3 2000 5000 4 6000 1 2
        ()) ! 0) = 4
   \<and> gqr_Work (calls (orgqr_loop_hip (needs_workspace 10) CFloat 1 3 2 2 1000 3 2000 5000 4 6000 1
        2 ()) ! 0) = \<lparr>pointee = CFloat, base = 5000, elems = 0\<rparr>
   \<and> gqr_devInfo (calls (orgqr_loop_hip (needs_workspace 10) CFloat 1 3 2 2 1000 3 2000 5000 4
        6000 1 2 ()) ! 0) = \<lparr>pointee = CInt, base = 6000, elems = 0\<rparr>
   \<and> status (orgqr_loop_hip (scripted [0, 7]) CFloat 1 3 2 2 1000 3 2000 5000 64 6000 3 2
        (0::nat)) =
     status (orgqr_loop_hip (scripted [0, 7]) CFloat 1 3 2 2 1000 3 2000 7000 8 9000 3 2 0)
   \<and> length (calls (orgqr_loop_hip (scripted [0, 7]) CFloat 1 3 2 2 1000 3 2000 5000 64 6000 3 2
        (0::nat))) =
     length (calls (orgqr_loop_hip (scripted [0, 7]) CFloat 1 3 2 2 1000 3 2000 7000 8 9000 3 2
        (0::nat)))
   \<and> calls (orgqr_loop_hip (scripted [0, 7]) CFloat 1 3 2 2 1000 3 2000 5000 64 6000 3 2
        (0::nat)) ! 1 =
     (calls (orgqr_loop_hip (scripted [0, 7]) CFloat 1 3 2 2 1000 3 2000 7000 8 9000 3 2
        (0::nat)) ! 1)
       \<lparr>gqr_Work := \<lparr>pointee = CFloat, base = 5000, elems = 0\<rparr>,
        gqr_lwork := 64,
        gqr_devInfo := \<lparr>pointee = CInt, base = 6000, elems = 1\<rparr>\<rparr>"
proof -
  have ign: "\<forall>w c W l d.
      scripted [0, 7] w (c\<lparr>gqr_Work := W, gqr_lwork := l, gqr_devInfo := d\<rparr>) = scripted [0, 7] w c"
    by (simp add: scripted_def)
  have c: "(1::nat) < length (calls (orgqr_loop_hip (scripted [0, 7]) CFloat 1 3 2 2 1000 3 2000 5000
      64 6000 3 2 (0::nat)))"
    by (simp add: orgqr_loop_hip_def Let_def for_loop_scripted_step for_loop_exit)
  have c0: "(0::nat) < length (calls (orgqr_loop_hip (needs_workspace 10) CFloat 1 3 2 2 1000 3 2000
      5000 4 6000 1 2 ()))"
    by (simp add: orgqr_loop_hip_def Let_def for_loop.simps needs_workspace_def
        orgqr_call_hip_def orgqr_vars_hip_def)
  note needy = orgqr_loop_hip_forwards_workspace [where func = "needs_workspace 10"
      and T = CFloat and handle = 1 and m = 3 and n = 2 and k = 2 and a_ptr = 1000 and lda = 3
      and tau_ptr = 2000 and w_ptr = 5000 and buffersize = 4 and info_ptr = 6000
      and w_ptr' = 5000 and buffersize' = 4 and info_ptr' = 6000 and batch_size = 1
      and origin_n = 2 and w = "()"]
  note deaf = orgqr_loop_hip_forwards_workspace [where func = "scripted [0, 7]" and T = CFloat
      and handle = 1 and m = 3 and n = 2 and k = 2 and a_ptr = 1000 and lda = 3
      and tau_ptr = 2000 and w_ptr = 5000 and buffersize = 64 and info_ptr = 6000
      and w_ptr' = 7000 and buffersize' = 8 and info_ptr' = 9000 and batch_size = 3
      and origin_n = 2 and w = "0::nat"]
  from needy [THEN conjunct1, rule_format, OF c0]
  have forwarded: "gqr_Work (calls (orgqr_loop_hip (needs_workspace 10) CFloat 1 3 2 2 1000 3 2000
        5000 4 6000 1 2 ()) ! 0) = \<lparr>pointee = CFloat, base = 5000, elems = 0\<rparr>
      \<and> gqr_lwork (calls (orgqr_loop_hip (needs_workspace 10) CFloat 1 3 2 2 1000 3 2000 5000 4
        6000 1 2 ()) ! 0) = 4
      \<and> gqr_devInfo (calls (orgqr_loop_hip (needs_workspace 10) CFloat 1 3 2 2 1000 3 2000 5000 4
        6000 1 2 ()) ! 0) = \<lparr>pointee = CInt, base = 6000, elems = 0\<rparr>"
    by simp
  note same = deaf [THEN conjunct2, THEN mp, OF ign]
  from same [THEN conjunct2, THEN conjunct2, THEN conjunct2, rule_format, OF c]
  have call: "calls (orgqr_loop_hip (scripted [0, 7]) CFloat 1 3 2 2 1000 3 2000 5000 64 6000 3 2
        (0::nat)) ! 1 =
      (calls (orgqr_loop_hip (scripted [0, 7]) CFloat 1 3 2 2 1000 3 2000 7000 8 9000 3 2
        (0::nat)) ! 1)
        \<lparr>gqr_Work := \<lparr>pointee = CFloat, base = 5000, elems = 0\<rparr>,
         gqr_lwork := 64,
         gqr_devInfo := \<lparr>pointee = CInt, base = 6000, elems = 1\<rparr>\<rparr>"
    by simp
  show ?thesis
    using forwarded call same [THEN conjunct1] same [THEN conjunct2, THEN conjunct2, THEN conjunct1]
    by simp
qed

text \<open>
  C8, as the claim is stated, fails: the two invocations of \<open>orgqr_loop\<close> (HIP) below
  differ only in \<open>buffersize\<close> (64 and 4 elements). The vendor function sees the
  difference: its calls differ, and with an entry point that wants 10 elements of workspace
  the returned statuses differ as well.
\<close>

theorem orgqr_loop_hip_ignores_workspace_counterexample:
  "calls (orgqr_loop_hip (needs_workspace 10) CFloat 1 3 2 2 1000 3 2000 5000 64 6000 1 2 ()) \<noteq>
   calls (orgqr_loop_hip (needs_workspace 10) CFloat 1 3 2 2 1000 3 2000 5000 4 6000 1 2 ())
   \<and> status (orgqr_loop_hip (needs_workspace 10) CFloat 1 3 2 2 1000 3 2000 5000 64 6000 1 2 ()) =
       Some 0
   \<and> status (orgqr_loop_hip (needs_workspace 10) CFloat 1 3 2 2 1000 3 2000 5000 4 6000 1 2 ()) =
       Some 7"
  by (simp add: orgqr_loop_hip_def Let_def for_loop.simps needs_workspace_def orgqr_call_hip_def
      orgqr_vars_hip_def)

section \<open>Properties of the loader\<close>

lemma url_in_unsupported: "sublist issues_url unsupported_message"
  unfolding unsupported_message_def issues_url_def newline_def by code_simp

lemma url_in_not_found: "sublist issues_url not_found_message"
  unfolding not_found_message_def issues_url_def newline_def by code_simp

lemma cause_in_unsupported:
  "sublist ''The requested function is not supported in the current version of''
     unsupported_message"
  unfolding unsupported_message_def newline_def by code_simp

lemma cause_in_not_found:
  "sublist ''The requested function could not be found in the library.'' not_found_message"
  unfolding not_found_message_def newline_def by code_simp

text \<open>
  C5. A call of either stub raises \<open>AssertionError\<close>. The message of
  \<open>_fail_unsupported\<close> says that the function is not supported in the installed version
  of the toolkit, the message of \<open>_fail_not_found\<close> that the function could not be found
  in the library; both contain the address of the issue tracker. Neither call returns a
  status, so none returns the success status 0.
\<close>

theorem stubs_always_raise:
  "fail_unsupported = Inl (Exn ''AssertionError'' unsupported_message None)
   \<and> fail_not_found = Inl (Exn ''AssertionError'' not_found_message None)
   \<and> sublist ''The requested function is not supported in the current version of''
        unsupported_message
   \<and> sublist ''The requested function could not be found in the library.'' not_found_message
   \<and> sublist issues_url unsupported_message
   \<and> sublist issues_url not_found_message
   \<and> (\<forall>st. fail_unsupported \<noteq> Inr st)
   \<and> (\<forall>st. fail_not_found \<noteq> Inr st)"
  using url_in_unsupported url_in_not_found cause_in_unsupported cause_in_not_found
  by (simp add: fail_unsupported_def fail_not_found_def)

lemma get_hipfuncname_first_match:
  assumes "\<forall>d\<in>set before. d cudafuncname = None"
    and "entry cudafuncname = Some (hipfuncname # others)"
  shows "get_hipfuncname (before @ entry # rest) cudafuncname = Inr hipfuncname"
  using assms by (induction before) simp_all

lemma get_hipfuncname_no_match:
  assumes "\<forall>d\<in>set table. d cudafuncname = None"
  shows "get_hipfuncname table cudafuncname = Inr cudafuncname"
  using assms by (induction table) simp_all

text \<open>
  C4. With \<open>CUPY_HIP_VERSION \<noteq> 0\<close> and an opened library, let the qualified name be
  \<open>prefix + name\<close>. If the first dictionary of the table that has the qualified name as
  a key maps it to \<open>hipfuncname\<close> followed by further names, then the name looked up in
  the library is \<open>hipfuncname\<close>: the result of \<open>get\<close> is the address the library
  has for \<open>hipfuncname\<close>, or the not-found stub when it has none. If no dictionary has
  the key, the name looked up is the qualified name itself.
\<close>

theorem get_translates_name:
  assumes "sl_cdll self = Some lib" and "hip_version \<noteq> 0"
  shows "(table = before @ entry # rest
          \<and> (\<forall>d\<in>set before. d (sl_prefix self @ name) = None)
          \<and> entry (sl_prefix self @ name) = Some (hipfuncname # others)
        \<longrightarrow> SoftLink_funcname hip_version table self name = Inr hipfuncname
          \<and> SoftLink_get hip_version table self name =
              Inr (case lib hipfuncname of None \<Rightarrow> Fail_not_found | Some ptr \<Rightarrow> Symbol ptr))
    \<and> ((\<forall>d\<in>set table. d (sl_prefix self @ name) = None)
        \<longrightarrow> SoftLink_funcname hip_version table self name = Inr (sl_prefix self @ name)
          \<and> SoftLink_get hip_version table self name =
              Inr (case lib (sl_prefix self @ name) of
                     None \<Rightarrow> Fail_not_found | Some ptr \<Rightarrow> Symbol ptr))"
proof (intro conjI impI; (elim conjE)?)
  assume t: "table = before @ entry # rest"
    and b: "\<forall>d\<in>set before. d (sl_prefix self @ name) = None"
    and e: "entry (sl_prefix self @ name) = Some (hipfuncname # others)"
  show f: "SoftLink_funcname hip_version table self name = Inr hipfuncname"
    unfolding t using assms(2) get_hipfuncname_first_match [where before = before and entry = entry and cudafuncname = "sl_prefix self @ name" and rest = rest, OF b e]
    by (simp add: SoftLink_funcname_def)
  show "SoftLink_get hip_version table self name =
      Inr (case lib hipfuncname of None \<Rightarrow> Fail_not_found | Some ptr \<Rightarrow> Symbol ptr)"
    using assms(1) by (simp add: SoftLink_get_def f split: option.split)
next
  assume n: "\<forall>d\<in>set table. d (sl_prefix self @ name) = None"
  show f: "SoftLink_funcname hip_version table self name = Inr (sl_prefix self @ name)"
    using assms(2) get_hipfuncname_no_match [where table = table and cudafuncname = "sl_prefix self @ name", OF n] by (simp add: SoftLink_funcname_def)
  show "SoftLink_get hip_version table self name =
      Inr (case lib (sl_prefix self @ name) of None \<Rightarrow> Fail_not_found | Some ptr \<Rightarrow> Symbol ptr)"
    using assms(1) by (simp add: SoftLink_get_def f split: option.split)
qed

theorem get_translates_name_witness:
  "SoftLink_get 60000000
     [[''cusolverDnDestroy'' \<mapsto> [''hipsolverDnDestroy'']],
      [''cusolverDnCreate'' \<mapsto> [''hipsolverDnCreate'', ''hipsolverCreate'']],
      [''cusolverDnCreate'' \<mapsto> [''rocsolver_create'']]]
     \<lparr>sl_error = None, sl_prefix = ''cusolverDn'',
      sl_cdll = Some [''cusolverDnCreate'' \<mapsto> 10, ''hipsolverDnCreate'' \<mapsto> 20,
                      ''hipsolverCreate'' \<mapsto> 30, ''rocsolver_create'' \<mapsto> 40,
                      ''cusolverDnSetStream'' \<mapsto> 50]\<rparr>
     ''Create'' = Inr (Symbol 20)
   \<and> SoftLink_get 60000000
     [[''cusolverDnDestroy'' \<mapsto> [''hipsolverDnDestroy'']],
      [''cusolverDnCreate'' \<mapsto> [''hipsolverDnCreate'', ''hipsolverCreate'']],
      [''cusolverDnCreate'' \<mapsto> [''rocsolver_create'']]]
     \<lparr>sl_error = None, sl_prefix = ''cusolverDn'',
      sl_cdll = Some [''cusolverDnCreate'' \<mapsto> 10, ''hipsolverDnCreate'' \<mapsto> 20,
                      ''hipsolverCreate'' \<mapsto> 30, ''rocsolver_create'' \<mapsto> 40,
                      ''cusolverDnSetStream'' \<mapsto> 50]\<rparr>
     ''SetStream'' = Inr (Symbol 50)"
proof -
  let ?lib = "[''cusolverDnCreate'' \<mapsto> 10, ''hipsolverDnCreate'' \<mapsto> 20,
               ''hipsolverCreate'' \<mapsto> 30, ''rocsolver_create'' \<mapsto> 40,
               ''cusolverDnSetStream'' \<mapsto> (50::int)]"
  let ?self = "\<lparr>sl_error = None, sl_prefix = ''cusolverDn'', sl_cdll = Some ?lib\<rparr>"
  let ?d0 = "[''cusolverDnDestroy'' \<mapsto> [''hipsolverDnDestroy'']]"
  let ?d1 = "[''cusolverDnCreate'' \<mapsto> [''hipsolverDnCreate'', ''hipsolverCreate'']]"
  let ?d2 = "[''cusolverDnCreate'' \<mapsto> [''rocsolver_create'']]"
  have open_lib: "sl_cdll ?self = Some ?lib" by simp
  have hip: "(60000000::int) \<noteq> 0" by simp
  show ?thesis
    using get_translates_name [OF open_lib hip, where table = "[?d0, ?d1, ?d2]" and before = "[?d0]"
        and entry = ?d1 and rest = "[?d2]" and name = "''Create''" and hipfuncname = "''hipsolverDnCreate''"
        and others = "[''hipsolverCreate'']"]
      get_translates_name [OF open_lib hip, where table = "[?d0, ?d1, ?d2]"
        and name = "''SetStream''"]
    by simp
qed

text \<open>
  C6. When \<open>ctypes.CDLL\<close> raises \<open>e\<close> for the library, the constructor with
  \<open>mandatory=True\<close> raises \<open>RuntimeError\<close> (from \<open>e\<close>) and no object results; with
  \<open>mandatory=False\<close> it returns an object that has recorded \<open>e\<close>, has no library, and
  has emitted one warning with the same message. Every \<open>get\<close> on that object returns
  the address of \<open>_fail_unsupported\<close>.
\<close>

theorem init_open_failure:
  assumes "CDLL libname = Inl e"
  shows "SoftLink_init CDLL (Some libname) prefix' True =
           Inl (Exn ''RuntimeError''
                  (''CuPy failed to load '' @ libname @ '': '' @ exn_type e @ '': '' @ exn_msg e)
                  (Some e))
    \<and> SoftLink_init CDLL (Some libname) prefix' False =
           Inr (\<lparr>sl_error = Some e, sl_prefix = prefix', sl_cdll = None\<rparr>,
                [''CuPy failed to load '' @ libname @ '': '' @ exn_type e @ '': '' @ exn_msg e])
    \<and> (\<forall>hip_version table name.
          SoftLink_get hip_version table \<lparr>sl_error = Some e, sl_prefix = prefix', sl_cdll = None\<rparr>
            name = Inr Fail_unsupported)"
  using assms by (simp add: SoftLink_init_def SoftLink_get_def)

theorem init_open_failure_witness:
  "SoftLink_init (\<lambda>name. Inl (Exn ''OSError'' (name @ '': cannot open shared object file'') None))
     (Some ''libcusolver.so.11'') ''cusolverDn'' True =
     Inl (Exn ''RuntimeError''
       ''CuPy failed to load libcusolver.so.11: OSError: libcusolver.so.11: cannot open shared object file''
       (Some (Exn ''OSError'' ''libcusolver.so.11: cannot open shared object file'' None)))
   \<and> SoftLink_init (\<lambda>name. Inl (Exn ''OSError'' (name @ '': cannot open shared object file'') None))
     (Some ''libcusolver.so.11'') ''cusolverDn'' False =
     Inr (\<lparr>sl_error = Some (Exn ''OSError'' ''libcusolver.so.11: cannot open shared object file'' None),
           sl_prefix = ''cusolverDn'', sl_cdll = None\<rparr>,
          [''CuPy failed to load libcusolver.so.11: OSError: libcusolver.so.11: cannot open shared object file''])
   \<and> SoftLink_get 0 []
       \<lparr>sl_error = Some (Exn ''OSError'' ''libcusolver.so.11: cannot open shared object file'' None),
        sl_prefix = ''cusolverDn'', sl_cdll = None\<rparr> ''Create'' = Inr Fail_unsupported"
  using init_open_failure
    [where CDLL = "\<lambda>name. Inl (Exn ''OSError'' (name @ '': cannot open shared object file'') None)"
      and libname = "''libcusolver.so.11''"
      and e = "Exn ''OSError'' ''libcusolver.so.11: cannot open shared object file'' None"
      and prefix' = "''cusolverDn''"]
  by simp

end
